theory Spec2Isabelle
  imports Main "HOL-Library.Multiset"
begin

section \<open>Python values and strings\<close>

text \<open>
  The sensor-network API of plenario (\<^verbatim>\<open>plenario/sensor_network/api/sensor_networks.py\<close>
  and \<^verbatim>\<open>sensor_validator.py\<close>) is Python 2 code. Exceptions are values of type \<open>exn\<close>; a
  function that may raise returns \<open>exn + 'a\<close> with \<open>Inl\<close> the exception.
\<close>

text \<open>
  The values an argument dictionary holds: \<open>None\<close>, integers (limit, offset), strings, lists of
  strings (nodes, sensors, features) and datetimes (a naive timestamp, counted in microseconds).
\<close>

datatype pyval =
    PNone
  | PInt int
  | PStr string
  | PList "string list"
  | PDateTime int

text \<open>Python truthiness, as \<^verbatim>\<open>if x\<close> and \<^verbatim>\<open>not x\<close> read it.\<close>

fun truthy :: "pyval \<Rightarrow> bool" where
  "truthy PNone = False"
| "truthy (PInt n) = (n \<noteq> 0)"
| "truthy (PStr s) = (s \<noteq> [])"
| "truthy (PList xs) = (xs \<noteq> [])"
| "truthy (PDateTime t) = True"

text \<open>\<^verbatim>\<open>str.lower()\<close> on a byte string: the ASCII capitals are mapped, every other byte is kept.\<close>

definition lower_char :: "char \<Rightarrow> char" where
  "lower_char c =
     (case map_of (zip ''ABCDEFGHIJKLMNOPQRSTUVWXYZ'' ''abcdefghijklmnopqrstuvwxyz'') c of
        Some d \<Rightarrow> d
      | None \<Rightarrow> c)"

definition lower :: "string \<Rightarrow> string" where
  "lower s = map lower_char s"

text \<open>
  \<^verbatim>\<open>s.split(sep)\<close> for a one-character separator: the fields between the separators, empty
  fields included; the result has at least one field.
\<close>

fun str_split :: "char \<Rightarrow> string \<Rightarrow> string list" where
  "str_split sep [] = [] # []"
| "str_split sep (c # cs) =
     (if c = sep then [] # str_split sep cs
      else (case str_split sep cs of
              [] \<Rightarrow> [c] # []
            | w # ws \<Rightarrow> (c # w) # ws))"

text \<open>
  \<^verbatim>\<open>s.split(sep)[0]\<close>. The list is never empty (lemma \<open>str_split_not_Nil\<close> below), so the
  index 0 never raises IndexError.
\<close>

definition split_first :: "char \<Rightarrow> string \<Rightarrow> string" where
  "split_first sep s = (case str_split sep s of [] \<Rightarrow> [] | w # ws \<Rightarrow> w)"

section \<open>Metadata records\<close>

text \<open>
  The ORM classes of \<^verbatim>\<open>plenario.sensor_network.sensor_models\<close>, with the attributes that
  \<^verbatim>\<open>filter_meta\<close> reads: \<^verbatim>\<open>network.nodes\<close>, \<^verbatim>\<open>node.id\<close>, \<^verbatim>\<open>node.sensors\<close>,
  \<^verbatim>\<open>sensor.name\<close>, \<^verbatim>\<open>sensor.observed_properties\<close> (a dictionary), and the \<^verbatim>\<open>name\<close> of a
  network and of a feature. The field names carry the class as a prefix.
\<close>

record Sensor =
  sensor_name :: string
  sensor_observed_properties :: "(string \<times> string) list"

record NodeMeta =
  node_id :: string
  node_sensor_network :: string
  node_location :: string
  node_sensors :: "Sensor list"

record NetworkMeta =
  network_name :: string
  network_nodes :: "NodeMeta list"

record FeatureOfInterest =
  feature_name :: string
  feature_observed_properties :: "(string \<times> string) list"

datatype records =
    Networks "NetworkMeta list"
  | Nodes "NodeMeta list"
  | Sensors "Sensor list"
  | Features "FeatureOfInterest list"

text \<open>
  A value of the ordered dictionary \<^verbatim>\<open>meta_levels\<close>: the filter the caller gave for the level,
  until the level is resolved, and the records found for it afterwards.
\<close>

datatype level_value =
    Given pyval
  | Resolved records

text \<open>
  The text of an error. The message of an empty resolution is
  \<^verbatim>\<open>"Given your selection, {}: {} are available and from these no valid {} could be found"\<close>
  formatted with \<^verbatim>\<open>current_state[i - 1][0]\<close>, \<^verbatim>\<open>current_state[i - 1][1]\<close> and \<^verbatim>\<open>target\<close>;
  \<open>EmptyMsg\<close> holds these three arguments in this order.
\<close>

datatype message =
    Text string
  | EmptyMsg string level_value string

section \<open>Exceptions and argument records\<close>

datatype exn =
    AttributeError
  | KeyError pyval
  | TypeError
  | ValueError message
  | ValidationError string
  | NoSuchTableError string
  | DatabaseError string

text \<open>
  A dictionary is an association list with distinct keys, in iteration order.
  \<^verbatim>\<open>d.get(k)\<close> gives \<open>None\<close> for an absent key, \<^verbatim>\<open>d[k]\<close> raises KeyError.
\<close>

type_synonym dict = "(string \<times> pyval) list"

definition dict_get :: "dict \<Rightarrow> string \<Rightarrow> pyval" where
  "dict_get d k = (case map_of d k of None \<Rightarrow> PNone | Some v \<Rightarrow> v)"

definition dict_item :: "dict \<Rightarrow> string \<Rightarrow> exn + pyval" where
  "dict_item d k = (case map_of d k of None \<Rightarrow> Inl (KeyError (PStr k)) | Some v \<Rightarrow> Inr v)"

text \<open>\<^verbatim>\<open>ValidatorResult = namedtuple('ValidatorResult', 'data errors warnings')\<close>\<close>

record ValidatorResult =
  data :: dict
  errors :: "(string \<times> string list) list"
  warnings :: "string list"

text \<open>\<^verbatim>\<open>remove_null_keys\<close>: every key whose value is \<open>None\<close> is deleted from \<open>args.data\<close>.\<close>

definition remove_null_keys :: "ValidatorResult \<Rightarrow> ValidatorResult" where
  "remove_null_keys args = args\<lparr>data := filter (\<lambda>(k, v). v \<noteq> PNone) (data args)\<rparr>"

text \<open>
  The body of the loop of \<^verbatim>\<open>sanitize_args\<close> and of \<^verbatim>\<open>sanitize_validated_args\<close> (the two
  bodies are the same text), for the key \<open>k\<close> holding \<open>v\<close>:
  \<^item> \<^verbatim>\<open>v.lower()\<close> raises AttributeError on anything but a string; it is caught and the
    loop continues with the next key, the value untouched;
  \<^item> for the keys nodes, sensors and features the lowered string is split at commas;
  \<^item> \<^verbatim>\<open>"+" in v\<close> is then a membership test on that list, or a substring test on the
    string; when it holds, \<^verbatim>\<open>v.split("+")[0]\<close> is taken, which on a list raises an
    AttributeError that nothing catches.
\<close>

definition list_keys :: "string list" where
  "list_keys = [''nodes'', ''sensors'', ''features'']"

fun sanitize_value :: "string \<Rightarrow> pyval \<Rightarrow> exn + pyval" where
  "sanitize_value k (PStr s) =
     (let s1 = lower s in
      if k \<in> set list_keys then
        (let l = str_split CHR '','' s1 in
         if ''+'' \<in> set l then Inl AttributeError else Inr (PList l))
      else if CHR ''+'' \<in> set s1 then Inr (PStr (split_first CHR ''+'' s1))
      else Inr (PStr s1))"
| "sanitize_value k v = Inr v"

fun sanitize_items :: "dict \<Rightarrow> exn + dict" where
  "sanitize_items [] = Inr []"
| "sanitize_items ((k, v) # rest) =
     (case sanitize_value k v of
        Inl e \<Rightarrow> Inl e
      | Inr v' \<Rightarrow>
          (case sanitize_items rest of
             Inl e \<Rightarrow> Inl e
           | Inr rest' \<Rightarrow> Inr ((k, v') # rest')))"

definition sanitize_args :: "dict \<Rightarrow> exn + dict" where
  "sanitize_args args = sanitize_items args"

definition sanitize_validated_args :: "ValidatorResult \<Rightarrow> exn + ValidatorResult" where
  "sanitize_validated_args args =
     (let args1 = remove_null_keys args in
      case sanitize_items (data args1) of
        Inl e \<Rightarrow> Inl e
      | Inr d \<Rightarrow> Inr (args1\<lparr>data := d\<rparr>))"

fun is_str :: "pyval \<Rightarrow> bool" where
  "is_str (PStr s) = True"
| "is_str v = False"

section \<open>The metadata store\<close>

text \<open>
  The metadata session: the rows of the four metadata tables, and the database's
  \<^verbatim>\<open>ST_Within(location, ST_GeomFromGeoJSON(geojson))\<close> as a predicate on the geometry
  argument and a node's location.
\<close>

record meta_session =
  db_networks :: "NetworkMeta list"
  db_nodes :: "NodeMeta list"
  db_sensors :: "Sensor list"
  db_features :: "FeatureOfInterest list"
  st_within :: "pyval \<Rightarrow> string \<Rightarrow> bool"

section \<open>Observation tables, queries and formatted observations\<close>

text \<open>
  A feature table (its name and column names) and a row of it. A row always has the four
  envelope columns; \<open>obs_getattr\<close> reads any other column of the row's table.
\<close>

record table =
  table_name :: string
  table_columns :: "string list"

record obs_row =
  obs_node_id :: string
  obs_meta_id :: pyval
  obs_datetime :: int
  obs_sensor :: string
  obs_getattr :: "string \<Rightarrow> pyval"

text \<open>
  The query that \<^verbatim>\<open>observation_query\<close> builds, as the clauses put on it: the two bounds on
  \<^verbatim>\<open>datetime\<close>, the \<^verbatim>\<open>IN\<close> lists on the lowered node id and sensor, and the limit and offset
  (\<open>None\<close> when the clause is not applied).
\<close>

record query =
  q_table :: table
  q_datetime_ge :: pyval
  q_datetime_lt :: pyval
  q_node_id_in :: "string list option"
  q_sensor_in :: "string list option"
  q_limit :: "pyval option"
  q_offset :: "pyval option"

record obs_response =
  r_node_id :: string
  r_meta_id :: pyval
  r_datetime :: string
  r_sensor :: string
  r_feature_of_interest :: string
  r_results :: "string \<rightharpoonup> pyval"

section \<open>Responses\<close>

datatype error_body =
    FieldErrors "(string \<times> string list) list"
  | Message message

datatype json_data =
    ObservationData "obs_response list"
  | AggregateData "dict list"

text \<open>
  What an endpoint returns, named by the helper that builds it: \<^verbatim>\<open>bad_request(errors)\<close> or
  \<^verbatim>\<open>bad_request(msg)\<close>, \<^verbatim>\<open>make_error(message, status)\<close> and \<^verbatim>\<open>jsonify(args, data)\<close>.
\<close>

datatype response =
    bad_request error_body
  | make_error message nat
  | jsonify ValidatorResult json_data

section \<open>The metadata filter chain\<close>

text \<open>
  The values valid at a level, inherited from the records resolved one level up (the first part
  of \<^verbatim>\<open>filter_meta\<close>). In \<^verbatim>\<open>metadata\<close> the upper value of a level below network is always the
  list of records of the level above; on anything else the \<^verbatim>\<open>for\<close> loop of the source fails.
\<close>

definition valid_values :: "string \<Rightarrow> level_value option \<Rightarrow> exn + string list" where
  "valid_values meta_level upper_filter_values =
     (if meta_level = ''nodes'' then
        (case upper_filter_values of
           Some (Resolved (Networks ns)) \<Rightarrow>
             Inr (concat (map (\<lambda>network. map node_id (network_nodes network)) ns))
         | _ \<Rightarrow> Inl TypeError)
      else if meta_level = ''sensors'' then
        (case upper_filter_values of
           Some (Resolved (Nodes ns)) \<Rightarrow>
             Inr (concat (map (\<lambda>node. map sensor_name (node_sensors node)) ns))
         | _ \<Rightarrow> Inl TypeError)
      else if meta_level = ''features'' then
        (case upper_filter_values of
           Some (Resolved (Sensors ss)) \<Rightarrow>
             Inr (concat (map (\<lambda>sensor.
                    map (\<lambda>p. split_first CHR ''.'' p)
                        (map snd (sensor_observed_properties sensor))) ss))
         | _ \<Rightarrow> Inl TypeError)
      else Inr [])"

text \<open>
  \<^verbatim>\<open>query.filter(table.name.in_(filter_values)).all()\<close>, with \<^verbatim>\<open>table.id\<close> for the nodes
  (NodeMeta has no \<^verbatim>\<open>name\<close>, the AttributeError is caught). For the nodes the query is first
  restricted by the geometry when one is given. A value that is not a string matches no name.
\<close>

definition select_in :: "meta_session \<Rightarrow> string \<Rightarrow> pyval \<Rightarrow> pyval list \<Rightarrow> records" where
  "select_in db meta_level geojson vs =
     (if meta_level = ''network'' then
        Networks (filter (\<lambda>r. PStr (network_name r) \<in> set vs) (db_networks db))
      else if meta_level = ''nodes'' then
        Nodes (filter (\<lambda>r. PStr (node_id r) \<in> set vs)
                 (if truthy geojson
                  then filter (\<lambda>r. st_within db geojson (node_location r)) (db_nodes db)
                  else db_nodes db))
      else if meta_level = ''sensors'' then
        Sensors (filter (\<lambda>r. PStr (sensor_name r) \<in> set vs) (db_sensors db))
      else
        Features (filter (\<lambda>r. PStr (feature_name r) \<in> set vs) (db_features db)))"

text \<open>
  \<^verbatim>\<open>filter_meta\<close>. A filter that is neither a list nor \<open>None\<close> is wrapped in a list. With no
  filter, the network level returns every network, and a lower level takes the valid values as
  its filter when there are any. \<^verbatim>\<open>in_(None)\<close> (no filter and no valid value) iterates over
  \<open>None\<close> and fails.
\<close>

definition filter_list :: "pyval \<Rightarrow> pyval list option" where
  "filter_list filter_values =
     (case filter_values of
        PNone \<Rightarrow> None
      | PList l \<Rightarrow> Some (map PStr l)
      | v \<Rightarrow> Some [v])"

definition filter_meta ::
  "meta_session \<Rightarrow> string \<Rightarrow> (string \<times> level_value) option \<Rightarrow> pyval \<Rightarrow> pyval \<Rightarrow> exn + records" where
  "filter_meta db meta_level upper filter_values geojson =
     (if meta_level \<notin> set [''network'', ''nodes'', ''sensors'', ''features'']
      then Inl (KeyError (PStr meta_level))
      else
        (case valid_values meta_level (map_option snd upper) of
           Inl e \<Rightarrow> Inl e
         | Inr valid \<Rightarrow>
             (let fv = filter_list filter_values;
                  no_filter = (fv = None \<or> fv = Some [])
              in if meta_level = ''network'' \<and> no_filter then Inr (Networks (db_networks db))
                 else
                   (case (if no_filter \<and> valid \<noteq> [] then Some (map PStr valid) else fv) of
                      None \<Rightarrow> Inl TypeError
                    | Some vs \<Rightarrow> Inr (select_in db meta_level geojson vs)))))"

fun no_records :: "records \<Rightarrow> bool" where
  "no_records (Networks xs) = (xs = [])"
| "no_records (Nodes xs) = (xs = [])"
| "no_records (Sensors xs) = (xs = [])"
| "no_records (Features xs) = (xs = [])"

text \<open>
  What \<^verbatim>\<open>metadata\<close> returns: the records of the target level, the response of
  \<^verbatim>\<open>bad_request(msg)\<close>, or \<open>None\<close> when the loop ends without reaching the target.
\<close>

datatype meta_result =
    MRecords records
  | MResponse response
  | MNone

text \<open>
  The loop of \<^verbatim>\<open>metadata\<close> over the levels still to resolve; \<open>prev\<close> is
  \<^verbatim>\<open>current_state[i - 1]\<close>, the key and value of the level before (for the first level,
  index \<open>-1\<close>: the features entry, still holding the caller's filter). \<^verbatim>\<open>bad_request\<close> raises
  RuntimeError outside a request context; the source turns it into ValueError.
\<close>

fun metadata_levels ::
  "meta_session \<Rightarrow> bool \<Rightarrow> string \<Rightarrow> pyval \<Rightarrow> string \<times> level_value \<Rightarrow>
     (string \<times> pyval) list \<Rightarrow> exn + meta_result" where
  "metadata_levels db in_request target geom prev [] = Inr MNone"
| "metadata_levels db in_request target geom prev ((key, val) # rest) =
     (case filter_meta db key (if key = ''network'' then None else Some prev) val geom of
        Inl e \<Rightarrow> Inl e
      | Inr found \<Rightarrow>
          if no_records found then
            (if in_request then Inr (MResponse (bad_request (Message (EmptyMsg (fst prev) (snd prev) target))))
             else Inl (ValueError (EmptyMsg (fst prev) (snd prev) target)))
          else if key = target then Inr (MRecords found)
          else metadata_levels db in_request target geom (key, Resolved found) rest)"

definition metadata ::
  "meta_session \<Rightarrow> bool \<Rightarrow> string \<Rightarrow> pyval \<Rightarrow> pyval \<Rightarrow> pyval \<Rightarrow> pyval \<Rightarrow> pyval \<Rightarrow>
     exn + meta_result" where
  "metadata db in_request target network nodes sensors features geom =
     metadata_levels db in_request target geom (''features'', Given features)
       [(''network'', network), (''nodes'', nodes), (''sensors'', sensors), (''features'', features)]"

definition get_raw_metadata ::
  "meta_session \<Rightarrow> bool \<Rightarrow> string \<Rightarrow> ValidatorResult \<Rightarrow> exn + meta_result" where
  "get_raw_metadata db in_request target args =
     metadata db in_request target
       (dict_get (data args) ''network'') (dict_get (data args) ''nodes'')
       (dict_get (data args) ''sensors'') (dict_get (data args) ''features'')
       (dict_get (data args) ''geom'')"

section \<open>The observation query builder\<close>

text \<open>
  \<^verbatim>\<open>column.in_(v)\<close> iterates over \<open>v\<close>: a list gives its elements, a string its characters,
  and an integer or a datetime is not iterable.
\<close>

definition in_values :: "pyval \<Rightarrow> exn + string list" where
  "in_values v =
     (case v of
        PList l \<Rightarrow> Inr l
      | PStr s \<Rightarrow> Inr (map (\<lambda>c. [c]) s)
      | _ \<Rightarrow> Inl TypeError)"

text \<open>
  \<^verbatim>\<open>observation_query\<close>. The node and sensor clauses are added when the value is truthy;
  \<^verbatim>\<open>args.data["limit"]\<close> and \<^verbatim>\<open>args.data["offset"]\<close> raise KeyError when the key is
  absent, and the clause is added when the value is truthy.
\<close>

definition observation_query :: "ValidatorResult \<Rightarrow> table \<Rightarrow> exn + query" where
  "observation_query args tbl =
     (let nodes = dict_get (data args) ''nodes'';
          start_dt = dict_get (data args) ''start_datetime'';
          end_dt = dict_get (data args) ''end_datetime'';
          sensors = dict_get (data args) ''sensors'';
          limit = dict_get (data args) ''limit'';
          offset = dict_get (data args) ''offset''
      in case (if truthy nodes then map_sum id Some (in_values nodes) else Inr None) of
           Inl e \<Rightarrow> Inl e
         | Inr node_clause \<Rightarrow>
        (case (if truthy sensors then map_sum id Some (in_values sensors) else Inr None) of
           Inl e \<Rightarrow> Inl e
         | Inr sensor_clause \<Rightarrow>
        (case dict_item (data args) ''limit'' of
           Inl e \<Rightarrow> Inl e
         | Inr l \<Rightarrow>
        (case dict_item (data args) ''offset'' of
           Inl e \<Rightarrow> Inl e
         | Inr off \<Rightarrow>
             Inr \<lparr>q_table = tbl, q_datetime_ge = start_dt, q_datetime_lt = end_dt,
                  q_node_id_in = node_clause, q_sensor_in = sensor_clause,
                  q_limit = (if truthy l then Some limit else None),
                  q_offset = (if truthy off then Some offset else None)\<rparr>))))"

text \<open>
  What the clauses of a query select from the rows of its table. \<open>ts\<close> is the database's
  reading of a bound as a timestamp (\<open>None\<close> for NULL, where the comparison is unknown and the
  row is not selected). The \<^verbatim>\<open>WHERE\<close> clause is the conjunction of the filters; then the
  offset skips and the limit caps. A negative limit or offset is an error of the database.
\<close>

definition query_where :: "(pyval \<Rightarrow> int option) \<Rightarrow> query \<Rightarrow> obs_row \<Rightarrow> bool" where
  "query_where ts q r =
     ((case ts (q_datetime_ge q) of None \<Rightarrow> False | Some s \<Rightarrow> s \<le> obs_datetime r) \<and>
      (case ts (q_datetime_lt q) of None \<Rightarrow> False | Some e \<Rightarrow> obs_datetime r < e) \<and>
      (case q_node_id_in q of None \<Rightarrow> True | Some l \<Rightarrow> lower (obs_node_id r) \<in> set l) \<and>
      (case q_sensor_in q of None \<Rightarrow> True | Some l \<Rightarrow> lower (obs_sensor r) \<in> set l))"

definition row_count_clause :: "pyval option \<Rightarrow> exn + nat option" where
  "row_count_clause c =
     (case c of
        None \<Rightarrow> Inr None
      | Some (PInt n) \<Rightarrow> (if n < 0 then Inl (DatabaseError ''negative'') else Inr (Some (nat n)))
      | Some v \<Rightarrow> Inl (DatabaseError ''not an integer''))"

definition query_rows :: "(pyval \<Rightarrow> int option) \<Rightarrow> query \<Rightarrow> obs_row list \<Rightarrow> exn + obs_row list" where
  "query_rows ts q rows =
     (case row_count_clause (q_offset q) of
        Inl e \<Rightarrow> Inl e
      | Inr off \<Rightarrow>
     (case row_count_clause (q_limit q) of
        Inl e \<Rightarrow> Inl e
      | Inr lim \<Rightarrow>
          (let selected = filter (query_where ts q) rows;
               skipped = (case off of None \<Rightarrow> selected | Some n \<Rightarrow> drop n selected)
           in Inr (case lim of None \<Rightarrow> skipped | Some n \<Rightarrow> take n skipped))))"

section \<open>The validator's defaults\<close>

text \<open>
  The \<^verbatim>\<open>default=\<close> of each field of class \<^verbatim>\<open>Validator\<close> (\<^verbatim>\<open>sensor_validator.py\<close>); the field
  \<^verbatim>\<open>feature\<close> declares none. \<open>utcnow\<close> is the clock, in microseconds.
\<close>

definition Validator_default :: "int \<Rightarrow> string \<Rightarrow> pyval option" where
  "Validator_default utcnow field =
     map_of [(''network'', PStr ''array_of_things''),
             (''nodes'', PNone),
             (''sensors'', PNone),
             (''features'', PNone),
             (''geom'', PNone),
             (''start_datetime'', PDateTime (utcnow - 90 * 86400 * 1000000)),
             (''end_datetime'', PDateTime utcnow),
             (''filter'', PNone),
             (''limit'', PInt 1000),
             (''offset'', PInt 0)] field"

text \<open>
  The function \<^verbatim>\<open>validate\<close> that the endpoints import from \<^verbatim>\<open>sensor_validator\<close> is not in
  the source file. What the validated record holds for a field that the request leaves out is
  taken from the docstring of class \<^verbatim>\<open>Validator\<close>: "If the value is missing or rejected, the
  validator will substitute it with the value specified by <DEFAULT_VALUE>". \<open>Validator_dump\<close> is
  that substitution for the fields of \<^verbatim>\<open>Validator(only=fields)\<close>: the request's value when
  there is one, the declared default otherwise.
\<close>

definition Validator_dump :: "int \<Rightarrow> string list \<Rightarrow> dict \<Rightarrow> dict" where
  "Validator_dump utcnow only request =
     concat (map (\<lambda>field.
        case map_of request field of
          Some v \<Rightarrow> [(field, v)]
        | None \<Rightarrow> (case Validator_default utcnow field of
                     Some v \<Rightarrow> [(field, v)]
                   | None \<Rightarrow> [])) only)"

text \<open>
  \<^verbatim>\<open>validate_nodes\<close> of \<^verbatim>\<open>sensor_validator.py\<close>; \<open>valid_nodes\<close> is \<^verbatim>\<open>NodeMeta.index()\<close>.
  A string is wrapped in a list; the first node whose lowered id is not in the index raises
  the ValidationError. Iterating over \<open>None\<close>, an integer or a datetime fails.
\<close>

definition validate_nodes :: "string list \<Rightarrow> pyval \<Rightarrow> exn + unit" where
  "validate_nodes valid_nodes nodes =
     (case (case nodes of PStr s \<Rightarrow> Some [s] | PList l \<Rightarrow> Some l | _ \<Rightarrow> None) of
        None \<Rightarrow> Inl TypeError
      | Some l \<Rightarrow>
          (case find (\<lambda>node. lower node \<notin> set valid_nodes) l of
             None \<Rightarrow> Inr ()
           | Some node \<Rightarrow> Inl (ValidationError (''Invalid node ID: '' @ node))))"

text \<open>The fields that \<^verbatim>\<open>get_observations\<close> passes to \<^verbatim>\<open>RequiredFeatureValidator(only=fields)\<close>.\<close>

definition observation_fields :: "string list" where
  "observation_fields =
     [''network'', ''nodes'', ''start_datetime'', ''end_datetime'', ''geom'',
      ''feature'', ''sensors'', ''limit'', ''offset'']"

section \<open>External collaborators\<close>

text \<open>
  What the code calls and does not define: the metadata session; whether a request context is
  active (\<^verbatim>\<open>bad_request\<close> raises RuntimeError without one); the observation store with
  \<^verbatim>\<open>Table(name, autoload=True)\<close>, \<^verbatim>\<open>query.all()\<close>, \<^verbatim>\<open>fast_count(query)\<close> and
  \<^verbatim>\<open>windowed_query(query, table.c.datetime, chunk_size)\<close>, a generator that yields rows and
  may end with an exception; \<^verbatim>\<open>datetime.isoformat\<close> and \<^verbatim>\<open>dateutil.parser.parse\<close>;
  whether the n-th \<^verbatim>\<open>session.commit()\<close> raises, and what; the n-th draw of
  \<^verbatim>\<open>os.urandom(16).encode('hex')\<close>; and \<^verbatim>\<open>str(datetime.now())\<close>.
\<close>

record env =
  meta :: meta_session
  in_request_context :: bool
  autoload :: "string \<Rightarrow> exn + table"
  query_all :: "query \<Rightarrow> exn + obs_row list"
  fast_count :: "query \<Rightarrow> exn + nat"
  windowed_query :: "query \<Rightarrow> obs_row list \<times> exn option"
  isoformat :: "int \<Rightarrow> string"
  parse :: "string \<Rightarrow> exn + int"
  commit_error :: "nat \<Rightarrow> exn option"
  urandom_hex :: "nat \<Rightarrow> string"
  now :: string

section \<open>Formatting and merging observations\<close>

text \<open>
  \<^verbatim>\<open>format_observation\<close>: the envelope, the datetime as \<^verbatim>\<open>isoformat().split('+')[0]\<close>, and
  under \<open>results\<close> every column of the table outside the envelope.
\<close>

definition format_observation :: "env \<Rightarrow> obs_row \<Rightarrow> table \<Rightarrow> obs_response" where
  "format_observation ev obs tbl =
     \<lparr>r_node_id = obs_node_id obs,
      r_meta_id = obs_meta_id obs,
      r_datetime = split_first CHR ''+'' (isoformat ev (obs_datetime obs)),
      r_sensor = obs_sensor obs,
      r_feature_of_interest = table_name tbl,
      r_results = (\<lambda>prop.
         if prop \<in> set (table_columns tbl) - {''node_id'', ''datetime'', ''sensor'', ''meta_id''}
         then Some (obs_getattr obs prop) else None)\<rparr>"

text \<open>The first loop of \<^verbatim>\<open>run_observation_queries\<close>: the rows of each query, formatted, in turn.\<close>

fun collect_observations :: "env \<Rightarrow> (query \<times> table) list \<Rightarrow> exn + obs_response list" where
  "collect_observations ev [] = Inr []"
| "collect_observations ev ((q, tbl) # rest) =
     (case query_all ev q of
        Inl e \<Rightarrow> Inl e
      | Inr rows \<Rightarrow>
          (case collect_observations ev rest of
             Inl e \<Rightarrow> Inl e
           | Inr others \<Rightarrow> Inr (map (\<lambda>obs. format_observation ev obs tbl) rows @ others)))"

text \<open>
  \<^verbatim>\<open>data.sort(key=lambda x: parse(x["datetime"]))\<close>: the key of every record is computed
  first (the first failing \<^verbatim>\<open>parse\<close> raises), then the records are sorted by key, stably.
\<close>

fun sort_keys :: "env \<Rightarrow> obs_response list \<Rightarrow> exn + int list" where
  "sort_keys ev [] = Inr []"
| "sort_keys ev (x # xs) =
     (case parse ev (r_datetime x) of
        Inl e \<Rightarrow> Inl e
      | Inr t \<Rightarrow>
          (case sort_keys ev xs of
             Inl e \<Rightarrow> Inl e
           | Inr ts \<Rightarrow> Inr (t # ts)))"

definition run_observation_queries ::
  "env \<Rightarrow> ValidatorResult \<Rightarrow> (query \<times> table) list \<Rightarrow> exn + response" where
  "run_observation_queries ev args queries =
     (case collect_observations ev queries of
        Inl e \<Rightarrow> Inl e
      | Inr observations \<Rightarrow>
          (let args1 = remove_null_keys args;
               args2 = args1\<lparr>data := filter (\<lambda>(k, v). k \<noteq> ''geom'') (data args1)\<rparr>
           in case sort_keys ev observations of
                Inl e \<Rightarrow> Inl e
              | Inr keys \<Rightarrow>
                  Inr (jsonify args2
                         (ObservationData (map snd (sort_key fst (zip keys observations)))))))"

section \<open>Building the observation queries\<close>

fun sequence_sum :: "('e + 'a) list \<Rightarrow> 'e + 'a list" where
  "sequence_sum [] = Inr []"
| "sequence_sum (x # xs) =
     (case x of
        Inl e \<Rightarrow> Inl e
      | Inr a \<Rightarrow>
          (case sequence_sum xs of
             Inl e \<Rightarrow> Inl e
           | Inr as \<Rightarrow> Inr (a # as)))"

text \<open>\<^verbatim>\<open>feature.name\<close> of each record of a result list; a node has no \<^verbatim>\<open>name\<close>.\<close>

fun record_names :: "records \<Rightarrow> exn + string list" where
  "record_names (Networks xs) = Inr (map network_name xs)"
| "record_names (Nodes xs) = (if xs = [] then Inr [] else Inl AttributeError)"
| "record_names (Sensors xs) = Inr (map sensor_name xs)"
| "record_names (Features xs) = Inr (map feature_name xs)"

text \<open>
  \<^verbatim>\<open>get_observation_queries\<close>. \<^verbatim>\<open>sanitize_validated_args\<close> changes \<^verbatim>\<open>args.data\<close> in place,
  so the sanitized record is returned too: the caller goes on with it. The second component is
  the result of \<^verbatim>\<open>get_raw_metadata\<close> when that is not a list, and the list of queries, each
  with its table, otherwise.
\<close>

definition get_observation_queries ::
  "env \<Rightarrow> ValidatorResult \<Rightarrow> exn + (ValidatorResult \<times> (meta_result + (query \<times> table) list))" where
  "get_observation_queries ev args =
     (case sanitize_validated_args args of
        Inl e \<Rightarrow> Inl e
      | Inr args1 \<Rightarrow>
          (case get_raw_metadata (meta ev) (in_request_context ev) ''features'' args1 of
             Inl e \<Rightarrow> Inl e
           | Inr (MRecords found) \<Rightarrow>
               (case record_names found of
                  Inl e \<Rightarrow> Inl e
                | Inr names \<Rightarrow>
                    (case sequence_sum (map (autoload ev) names) of
                       Inl e \<Rightarrow> Inl e
                     | Inr tables \<Rightarrow>
                         (case sequence_sum
                                 (map (\<lambda>tbl. map_sum id (\<lambda>q. (q, tbl)) (observation_query args1 tbl))
                                    tables) of
                            Inl e \<Rightarrow> Inl e
                          | Inr queries \<Rightarrow> Inr (args1, Inr queries))))
           | Inr other \<Rightarrow> Inr (args1, Inl other)))"

section \<open>The chunked export\<close>

text \<open>
  A row of the DataDump table. \<open>dump_data\<close> stands for the JSON text: the list of formatted
  observations of a part, or the summary with start time, end time, workers and features.
\<close>

datatype dump_data =
    ChunkJSON "obs_response list"
  | MetaJSON string string "pyval list" "string list"

record DataDump =
  dump_id :: pyval
  dump_request :: pyval
  dump_part :: nat
  dump_total :: nat
  dump_data :: dump_data

text \<open>The status of a job, as \<^verbatim>\<open>get_status\<close> returns it: progress (done, total) and the start time.\<close>

record job_status =
  progress :: "(nat \<times> nat) option"
  meta_startTime :: string

text \<open>
  The calls the export makes on the session and on the job store, in the order made:
  \<^verbatim>\<open>session.add\<close>, \<^verbatim>\<open>session.commit\<close>, \<^verbatim>\<open>session.rollback\<close>, \<^verbatim>\<open>set_status\<close> with
  the progress written, and \<^verbatim>\<open>set_flag\<close>.
\<close>

datatype call = Add | Commit | Rollback | SetStatus pyval nat nat | SetFlag string

text \<open>
  The state that the export changes: the objects added to the session and not yet committed,
  the committed rows of the DataDump table, the job statuses by ticket, the flags set, the
  calls made so far, and how many times commit and urandom were called.
\<close>

record state =
  session_new :: "DataDump list"
  datadump_table :: "DataDump list"
  job_statuses :: "pyval \<Rightarrow> job_status"
  flags :: "(string \<times> bool \<times> nat) list"
  calls :: "call list"
  commit_count :: nat
  urandom_count :: nat

definition session_add :: "DataDump \<Rightarrow> state \<Rightarrow> state" where
  "session_add d s = s\<lparr>session_new := session_new s @ [d], calls := calls s @ [Add]\<rparr>"

definition session_commit :: "env \<Rightarrow> state \<Rightarrow> (exn + unit) \<times> state" where
  "session_commit ev s =
     (case commit_error ev (commit_count s) of
        Some e \<Rightarrow>
          (Inl e, s\<lparr>calls := calls s @ [Commit], commit_count := Suc (commit_count s)\<rparr>)
      | None \<Rightarrow>
          (Inr (), s\<lparr>datadump_table := datadump_table s @ session_new s, session_new := [],
                     calls := calls s @ [Commit],
                     commit_count := Suc (commit_count s)\<rparr>))"

definition session_rollback :: "state \<Rightarrow> state" where
  "session_rollback s = s\<lparr>session_new := [], calls := calls s @ [Rollback]\<rparr>"

definition chunk_size :: nat where
  "chunk_size = 1000"

text \<open>
  \<^verbatim>\<open>store_chunk\<close>: add the part and commit; on a failed commit roll back and raise the same
  exception; otherwise set the progress of the job, then the cleanup flag
  (\<^verbatim>\<open>request_id + "_suppresscleanup"\<close> is a TypeError unless the ticket is a string).
\<close>

definition store_chunk ::
  "env \<Rightarrow> obs_response list \<Rightarrow> nat \<Rightarrow> nat \<Rightarrow> pyval \<Rightarrow> state \<Rightarrow> (exn + unit) \<times> state" where
  "store_chunk ev chunk chunk_count chunk_number request_id s =
     (let datadump_part = \<lparr>dump_id = PStr (urandom_hex ev (urandom_count s)),
                            dump_request = request_id, dump_part = chunk_number,
                            dump_total = chunk_count, dump_data = ChunkJSON chunk\<rparr>;
          s1 = session_add datadump_part (s\<lparr>urandom_count := Suc (urandom_count s)\<rparr>)
      in case session_commit ev s1 of
           (Inl e, s2) \<Rightarrow> (Inl e, session_rollback s2)
         | (Inr u, s2) \<Rightarrow>
             (let status = job_statuses s2 request_id;
                  s3 = s2\<lparr>job_statuses := (job_statuses s2)
                            (request_id := status\<lparr>progress := Some (chunk_number, chunk_count)\<rparr>),
                          calls := calls s2 @ [SetStatus request_id chunk_number chunk_count]\<rparr>
              in case request_id of
                   PStr r \<Rightarrow>
                     (Inr (), s3\<lparr>flags := flags s3 @ [(r @ ''_suppresscleanup'', True, 10800)],
                                calls := calls s3 @ [SetFlag (r @ ''_suppresscleanup'')]\<rparr>)
                 | _ \<Rightarrow> (Inl TypeError, s3)))"

text \<open>
  The inner loop of \<^verbatim>\<open>get_observation_datadump\<close> over the rows that \<^verbatim>\<open>windowed_query\<close>
  yields for one table: the row is formatted and appended to the chunk; when
  \<^verbatim>\<open>len(chunk) > chunk_size\<close> the chunk is stored, emptied, and the chunk number goes up.
\<close>

fun chunk_rows ::
  "env \<Rightarrow> nat \<Rightarrow> pyval \<Rightarrow> table \<Rightarrow> obs_row list \<Rightarrow> obs_response list \<Rightarrow> nat \<Rightarrow> state \<Rightarrow>
     (exn + (obs_response list \<times> nat)) \<times> state" where
  "chunk_rows ev chunk_count request_id tbl [] chunk chunk_number s = (Inr (chunk, chunk_number), s)"
| "chunk_rows ev chunk_count request_id tbl (row # rows) chunk chunk_number s =
     (let chunk1 = chunk @ [format_observation ev row tbl] in
      if length chunk1 > chunk_size then
        (case store_chunk ev chunk1 chunk_count chunk_number request_id s of
           (Inl e, s1) \<Rightarrow> (Inl e, s1)
         | (Inr u, s1) \<Rightarrow> chunk_rows ev chunk_count request_id tbl rows [] (chunk_number + 1) s1)
      else chunk_rows ev chunk_count request_id tbl rows chunk1 chunk_number s)"

text \<open>
  The outer loop over the queries: the lowered table name joins the set of features, then the
  rows of the query are streamed; an exception that ends the stream is raised after its rows.
\<close>

fun chunk_tables ::
  "env \<Rightarrow> nat \<Rightarrow> pyval \<Rightarrow> (query \<times> table) list \<Rightarrow> obs_response list \<Rightarrow> nat \<Rightarrow> string list \<Rightarrow>
     state \<Rightarrow> (exn + (obs_response list \<times> nat \<times> string list)) \<times> state" where
  "chunk_tables ev chunk_count request_id [] chunk chunk_number features s =
     (Inr (chunk, chunk_number, features), s)"
| "chunk_tables ev chunk_count request_id ((q, tbl) # rest) chunk chunk_number features s =
     (let features1 = List.insert (lower (table_name tbl)) features in
      case chunk_rows ev chunk_count request_id tbl (fst (windowed_query ev q)) chunk chunk_number s of
        (Inl e, s1) \<Rightarrow> (Inl e, s1)
      | (Inr (chunk1, chunk_number1), s1) \<Rightarrow>
          (case snd (windowed_query ev q) of
             Some e \<Rightarrow> (Inl e, s1)
           | None \<Rightarrow> chunk_tables ev chunk_count request_id rest chunk1 chunk_number1 features1 s1))"

text \<open>\<^verbatim>\<open>row_count += fast_count(query)\<close> over the queries.\<close>

fun count_rows :: "env \<Rightarrow> (query \<times> table) list \<Rightarrow> exn + nat" where
  "count_rows ev [] = Inr 0"
| "count_rows ev ((q, tbl) # rest) =
     (case fast_count ev q of
        Inl e \<Rightarrow> Inl e
      | Inr n \<Rightarrow>
          (case count_rows ev rest of
             Inl e \<Rightarrow> Inl e
           | Inr m \<Rightarrow> Inr (n + m)))"

text \<open>
  What \<^verbatim>\<open>get_observation_datadump\<close> returns: the result of \<^verbatim>\<open>get_observation_queries\<close> when
  that is not a list, or the dictionary \<^verbatim>\<open>{"url": ...}\<close>.
\<close>

datatype datadump_result =
    NotAList meta_result
  | UrlDict string

text \<open>
  The part of \<^verbatim>\<open>get_observation_datadump\<close> after the queries are there. \<open>args\<close> is the
  record as \<^verbatim>\<open>get_observation_queries\<close> left it. \<^verbatim>\<open>chunk_count\<close> is
  \<^verbatim>\<open>math.ceil(row_count / 1000.0)\<close>. After both iterations a chunk that is not empty is stored, then
  the summary row is added and committed, with a rollback and the same exception on failure.
\<close>

definition datadump_queries ::
  "env \<Rightarrow> ValidatorResult \<Rightarrow> pyval \<Rightarrow> (query \<times> table) list \<Rightarrow> state \<Rightarrow>
     (exn + datadump_result) \<times> state" where
  "datadump_queries ev args request_id observation_queries s =
     (case count_rows ev observation_queries of
        Inl e \<Rightarrow> (Inl e, s)
      | Inr row_count \<Rightarrow>
     (let chunk_count = (row_count + (chunk_size - 1)) div chunk_size in
      case chunk_tables ev chunk_count request_id observation_queries [] 1 [] s of
        (Inl e, s1) \<Rightarrow> (Inl e, s1)
      | (Inr (chunk, chunk_number, features), s1) \<Rightarrow>
     (case (if length chunk > 0 then store_chunk ev chunk chunk_count chunk_number request_id s1
            else (Inr (), s1)) of
        (Inl e, s2) \<Rightarrow> (Inl e, s2)
      | (Inr u, s2) \<Rightarrow>
     (case dict_item (data args) ''jobsframework_workerid'' of
        Inl e \<Rightarrow> (Inl e, s2)
      | Inr worker \<Rightarrow>
     (let meta_chunk = MetaJSON (meta_startTime (job_statuses s2 request_id)) (now ev)
                         [worker] features;
          dump = \<lparr>dump_id = request_id, dump_request = request_id, dump_part = 0,
                  dump_total = chunk_count, dump_data = meta_chunk\<rparr>
      in case session_commit ev (session_add dump s2) of
           (Inl e, s3) \<Rightarrow> (Inl e, session_rollback s3)
         | (Inr u, s3) \<Rightarrow>
             (case dict_item (data args) ''datadump_urlroot'' of
                Inl e \<Rightarrow> (Inl e, s3)
              | Inr (PStr root) \<Rightarrow>
                  (case request_id of
                     PStr r \<Rightarrow> (Inr (UrlDict (root @ ''v1/api/datadump/'' @ r)), s3)
                   | _ \<Rightarrow> (Inl TypeError, s3))
              | Inr other \<Rightarrow> (Inl TypeError, s3)))))))"

definition get_observation_datadump ::
  "env \<Rightarrow> ValidatorResult \<Rightarrow> state \<Rightarrow> (exn + datadump_result) \<times> state" where
  "get_observation_datadump ev args s =
     (let request_id = dict_get (data args) ''jobsframework_ticket'' in
      case get_observation_queries ev args of
        Inl e \<Rightarrow> (Inl e, s)
      | Inr (args1, Inl other) \<Rightarrow> (Inr (NotAList other), s)
      | Inr (args1, Inr observation_queries) \<Rightarrow>
          datadump_queries ev args1 request_id observation_queries s)"

section \<open>Aggregations\<close>

text \<open>
  \<^verbatim>\<open>get_aggregations\<close>. \<open>validate\<close> stands for
  \<^verbatim>\<open>validate(NodeAggregateValidator(only=fields), request_args)\<close> and \<open>aggregate_fn_map\<close> for the
  registry of aggregate functions; neither is defined in the source files. A ValueError of the
  aggregate function becomes \<^verbatim>\<open>make_error(err.message, 422)\<close>; any other exception is not
  caught.
\<close>

definition get_aggregations ::
  "(dict \<Rightarrow> ValidatorResult) \<Rightarrow> (string \<rightharpoonup> (ValidatorResult \<Rightarrow> exn + dict list)) \<Rightarrow> dict \<Rightarrow>
     exn + response" where
  "get_aggregations validate aggregate_fn_map request_args =
     (case sanitize_args request_args of
        Inl e \<Rightarrow> Inl e
      | Inr request_args1 \<Rightarrow>
          (let validated_args = validate request_args1 in
           if errors validated_args \<noteq> [] then Inr (bad_request (FieldErrors (errors validated_args)))
           else
             (case sanitize_validated_args validated_args of
                Inl e \<Rightarrow> Inl e
              | Inr validated_args1 \<Rightarrow>
                  (case (case dict_get (data validated_args1) ''function'' of
                           PStr f \<Rightarrow> aggregate_fn_map f
                         | _ \<Rightarrow> None) of
                     None \<Rightarrow> Inl (KeyError (dict_get (data validated_args1) ''function''))
                   | Some fn \<Rightarrow>
                       (case fn validated_args1 of
                          Inl (ValueError msg) \<Rightarrow> Inr (make_error msg 422)
                        | Inl e \<Rightarrow> Inl e
                        | Inr result \<Rightarrow> Inr (jsonify validated_args1 (AggregateData result)))))))"

section \<open>Properties of a run of the export\<close>

text \<open>The exception of a result, if it is one.\<close>

definition raised :: "'e + 'a \<Rightarrow> 'e option" where
  "raised res = (case res of Inl e \<Rightarrow> Some e | Inr a \<Rightarrow> None)"

text \<open>
  A piece of the export went from \<open>s\<close> to \<open>s'\<close> and ended with the exception \<open>err\<close>, or
  without one. \<open>failed_commit_stops\<close> says of it: when one of the commits it attempted failed
  with \<open>e\<close>, that commit was its last, nothing is left pending in the session, the last calls
  made are the add, the commit and the rollback, and \<open>e\<close> is the exception it ended with.
\<close>

definition failed_commit_stops :: "env \<Rightarrow> state \<Rightarrow> state \<Rightarrow> exn option \<Rightarrow> bool" where
  "failed_commit_stops ev s s' err \<longleftrightarrow>
     commit_count s \<le> commit_count s' \<and>
     (\<forall>i e. commit_count s \<le> i \<and> i < commit_count s' \<and> commit_error ev i = Some e \<longrightarrow>
        err = Some e \<and> Suc i = commit_count s' \<and> session_new s' = [] \<and>
        (\<exists>before. calls s' = before @ [Add, Commit, Rollback]))"

text \<open>Of each committed row: its part number, its total, and how many observations it holds.\<close>

definition part_sizes :: "state \<Rightarrow> (nat \<times> nat \<times> nat) list" where
  "part_sizes s =
     map (\<lambda>d. (dump_part d, dump_total d,
                case dump_data d of ChunkJSON chunk \<Rightarrow> length chunk | MetaJSON a b c d \<Rightarrow> 0))
         (datadump_table s)"

section \<open>Example data\<close>

definition ex_table :: table where
  "ex_table = \<lparr>table_name = ''temperature'',
               table_columns = [''node_id'', ''datetime'', ''meta_id'', ''sensor'', ''temperature'']\<rparr>"

definition ex_row :: "int \<Rightarrow> obs_row" where
  "ex_row t = \<lparr>obs_node_id = ''004E'', obs_meta_id = PInt 1, obs_datetime = t,
               obs_sensor = ''TMP112'', obs_getattr = (\<lambda>c. PInt 20)\<rparr>"

definition ex_ts :: "pyval \<Rightarrow> int option" where
  "ex_ts v = (case v of PDateTime t \<Rightarrow> Some t | _ \<Rightarrow> None)"

definition ex_sensor :: Sensor where
  "ex_sensor = \<lparr>sensor_name = ''tmp112'',
                sensor_observed_properties = [(''temperature'', ''temperature.temperature'')]\<rparr>"

definition ex_node :: NodeMeta where
  "ex_node = \<lparr>node_id = ''004e'', node_sensor_network = ''array_of_things'',
              node_location = ''0101000000'', node_sensors = [ex_sensor]\<rparr>"

definition ex_network :: NetworkMeta where
  "ex_network = \<lparr>network_name = ''array_of_things'', network_nodes = [ex_node]\<rparr>"

definition ex_feature :: FeatureOfInterest where
  "ex_feature = \<lparr>feature_name = ''temperature'',
                 feature_observed_properties = [(''name'', ''temperature'')]\<rparr>"

definition ex_meta :: meta_session where
  "ex_meta = \<lparr>db_networks = [ex_network], db_nodes = [ex_node], db_sensors = [ex_sensor],
              db_features = [ex_feature], st_within = (\<lambda>geojson location. True)\<rparr>"

definition ex_isoformat :: "int \<Rightarrow> string" where
  "ex_isoformat t =
     (if t = 10 then ''2017-01-01T00:00:10+00:00''
      else if t = 30 then ''2017-01-01T00:00:30+00:00''
      else ''2017-01-01T00:00:20+00:00'')"

definition ex_parse :: "string \<Rightarrow> exn + int" where
  "ex_parse str =
     (if str = ''2017-01-01T00:00:10'' then Inr 10
      else if str = ''2017-01-01T00:00:30'' then Inr 30
      else if str = ''2017-01-01T00:00:20'' then Inr 20
      else Inl (ValueError (Text ''Unknown string format'')))"

text \<open>
  A store with the one feature table, whose queries stream \<open>n\<close> rows and count \<open>n\<close>, and
  where the commits listed in \<open>failing\<close> fail.
\<close>

definition ex_env :: "nat \<Rightarrow> nat list \<Rightarrow> env" where
  "ex_env n failing =
     \<lparr>meta = ex_meta, in_request_context = False,
      autoload = (\<lambda>name. if name = ''temperature'' then Inr ex_table
                         else Inl (NoSuchTableError name)),
      query_all = (\<lambda>q. Inr [ex_row 30, ex_row 10]),
      fast_count = (\<lambda>q. Inr n),
      windowed_query = (\<lambda>q. (replicate n (ex_row 10), None)),
      isoformat = ex_isoformat, parse = ex_parse,
      commit_error = (\<lambda>i. if i \<in> set failing then Some (DatabaseError ''commit'') else None),
      urandom_hex = (\<lambda>i. ''00''), now = ''2017-02-01 00:00:00''\<rparr>"

definition ex_args :: ValidatorResult where
  "ex_args =
     \<lparr>data = [(''network'', PStr ''array_of_things''), (''geom'', PNone),
              (''start_datetime'', PDateTime 0), (''end_datetime'', PDateTime 100),
              (''limit'', PInt 5000), (''offset'', PInt 0),
              (''jobsframework_ticket'', PStr ''ticket1''),
              (''jobsframework_workerid'', PStr ''worker1''),
              (''datadump_urlroot'', PStr ''http://host/'')],
      errors = [], warnings = []\<rparr>"

definition ex_state :: state where
  "ex_state =
     \<lparr>session_new = [], datadump_table = [],
      job_statuses = (\<lambda>ticket. \<lparr>progress = None, meta_startTime = ''2017-02-01 00:00:00''\<rparr>),
      flags = [], calls = [], commit_count = 0, urandom_count = 0\<rparr>"

text \<open>The record that \<^verbatim>\<open>get_observation_queries\<close> leaves of \<open>ex_args\<close>, and the query it builds.\<close>

definition ex_args1 :: ValidatorResult where
  "ex_args1 =
     \<lparr>data = [(''network'', PStr ''array_of_things''),
              (''start_datetime'', PDateTime 0), (''end_datetime'', PDateTime 100),
              (''limit'', PInt 5000), (''offset'', PInt 0),
              (''jobsframework_ticket'', PStr ''ticket1''),
              (''jobsframework_workerid'', PStr ''worker1''),
              (''datadump_urlroot'', PStr ''http://host/'')],
      errors = [], warnings = []\<rparr>"

definition ex_query :: query where
  "ex_query =
     \<lparr>q_table = ex_table, q_datetime_ge = PDateTime 0, q_datetime_lt = PDateTime 100,
      q_node_id_in = None, q_sensor_in = None, q_limit = Some (PInt 5000), q_offset = None\<rparr>"

section \<open>Sanitizing validated arguments\<close>

lemma str_split_not_Nil: "str_split sep s \<noteq> []"
  by (induction s) (auto split: list.splits)

lemma split_first_takeWhile: "split_first sep s = takeWhile (\<lambda>c. c \<noteq> sep) s"
proof (induction s)
  case Nil
  show ?case by (simp add: split_first_def)
next
  case (Cons c cs)
  then show ?case
    using str_split_not_Nil [of sep cs]
    by (auto simp: split_first_def split: list.splits)
qed

lemma takeWhile_no_sep: "sep \<notin> set s \<Longrightarrow> takeWhile (\<lambda>c. c \<noteq> sep) s = s"
  by (induction s) auto

lemma sanitize_value_not_str: "\<not> is_str v \<Longrightarrow> sanitize_value k v = Inr v"
  by (cases v) simp_all

lemma sanitize_value_list_key:
  "k \<in> set list_keys \<Longrightarrow> sanitize_value k (PStr s) = Inr v' \<Longrightarrow>
     v' = PList (str_split CHR '','' (lower s))"
  by (auto simp: Let_def split: if_splits)

lemma sanitize_value_other_key:
  "k \<notin> set list_keys \<Longrightarrow> sanitize_value k (PStr s) = Inr v' \<Longrightarrow>
     v' = PStr (takeWhile (\<lambda>c. c \<noteq> CHR ''+'') (lower s))"
  by (auto simp: Let_def split_first_takeWhile takeWhile_no_sep split: if_splits)

lemma sanitize_items_lookup:
  "sanitize_items d = Inr d' \<Longrightarrow> map_of d k = Some v \<Longrightarrow>
     \<exists>v'. sanitize_value k v = Inr v' \<and> map_of d' k = Some v'"
proof (induction d arbitrary: d')
  case Nil
  then show ?case by simp
next
  case (Cons kv rest)
  obtain k0 v0 where kv: "kv = (k0, v0)" by (cases kv)
  from Cons.prems(1) kv obtain v0' rest' where
    v0: "sanitize_value k0 v0 = Inr v0'" and
    rest: "sanitize_items rest = Inr rest'" and
    d': "d' = (k0, v0') # rest'"
    by (auto split: sum.splits)
  show ?case
  proof (cases "k = k0")
    case True
    with Cons.prems(2) kv v0 d' show ?thesis by simp
  next
    case False
    with Cons.prems(2) kv have "map_of rest k = Some v" by simp
    from Cons.IH [OF rest this] False d' show ?thesis by simp
  qed
qed

lemma sanitize_items_no_str:
  "\<forall>(k, v) \<in> set d. \<not> is_str v \<Longrightarrow> sanitize_items d = Inr d"
  by (induction d) (auto simp: sanitize_value_not_str)

lemma map_of_filter_not_None:
  "map_of d k = Some v \<Longrightarrow> v \<noteq> PNone \<Longrightarrow> map_of (filter (\<lambda>(k, v). v \<noteq> PNone) d) k = Some v"
  by (induction d) (auto split: if_splits)

text \<open>
  Claim C10. When \<^verbatim>\<open>sanitize_validated_args\<close> returns, an entry whose value is not a string
  (a list, as the path parameter wrapped in a list by \<^verbatim>\<open>get_node_metadata\<close>, an integer or a
  datetime) is in the result unchanged: the lowercase step fails on it and the rest of the loop
  body is skipped. Only a string entry is transformed: lowercased, then split at commas for the
  keys nodes, sensors and features, and cut before its first \<open>+\<close> for every other key. A record
  without string entries is always returned, with only its \<open>None\<close> entries removed.
\<close>

theorem sanitize_validated_args_only_strings:
  "(sanitize_validated_args args = Inr args' \<longrightarrow>
      (\<forall>k xs. map_of (data args) k = Some (PList xs) \<longrightarrow> map_of (data args') k = Some (PList xs)) \<and>
      (\<forall>k v. map_of (data args) k = Some v \<and> \<not> is_str v \<and> v \<noteq> PNone \<longrightarrow>
          map_of (data args') k = Some v) \<and>
      (\<forall>k s. map_of (data args) k = Some (PStr s) \<longrightarrow>
          map_of (data args') k =
            Some (if k \<in> set list_keys then PList (str_split CHR '','' (lower s))
                  else PStr (takeWhile (\<lambda>c. c \<noteq> CHR ''+'') (lower s)))))
   \<and> ((\<forall>(k, v) \<in> set (data args). \<not> is_str v) \<longrightarrow>
        sanitize_validated_args args = Inr (remove_null_keys args))"
proof (intro conjI impI)
  assume ok: "sanitize_validated_args args = Inr args'"
  let ?d1 = "filter (\<lambda>(k, v). v \<noteq> PNone) (data args)"
  from ok have items: "sanitize_items ?d1 = Inr (data args')"
    by (auto simp: sanitize_validated_args_def remove_null_keys_def Let_def split: sum.splits)
  have other: "map_of (data args') k = Some v"
    if "map_of (data args) k = Some v" "\<not> is_str v" "v \<noteq> PNone" for k v
  proof -
    from that have "map_of ?d1 k = Some v" by (simp add: map_of_filter_not_None)
    from sanitize_items_lookup [OF items this] that(2) show ?thesis
      by (simp add: sanitize_value_not_str)
  qed
  show "\<forall>k xs. map_of (data args) k = Some (PList xs) \<longrightarrow> map_of (data args') k = Some (PList xs)"
    using other by simp
  show "\<forall>k v. map_of (data args) k = Some v \<and> \<not> is_str v \<and> v \<noteq> PNone \<longrightarrow>
          map_of (data args') k = Some v"
    using other by blast
  show "\<forall>k s. map_of (data args) k = Some (PStr s) \<longrightarrow>
          map_of (data args') k =
            Some (if k \<in> set list_keys then PList (str_split CHR '','' (lower s))
                  else PStr (takeWhile (\<lambda>c. c \<noteq> CHR ''+'') (lower s)))"
  proof (intro allI impI)
    fix k s
    assume "map_of (data args) k = Some (PStr s)"
    then have "map_of ?d1 k = Some (PStr s)" by (simp add: map_of_filter_not_None)
    from sanitize_items_lookup [OF items this] obtain v' where
      v': "sanitize_value k (PStr s) = Inr v'" "map_of (data args') k = Some v'"
      by blast
    show "map_of (data args') k =
            Some (if k \<in> set list_keys then PList (str_split CHR '','' (lower s))
                  else PStr (takeWhile (\<lambda>c. c \<noteq> CHR ''+'') (lower s)))"
      using v' sanitize_value_list_key [of k s v'] sanitize_value_other_key [of k s v']
      by (cases "k \<in> set list_keys") simp_all
  qed
next
  assume nostr: "\<forall>(k, v) \<in> set (data args). \<not> is_str v"
  then have "\<forall>(k, v) \<in> set (filter (\<lambda>(k, v). v \<noteq> PNone) (data args)). \<not> is_str v"
    by auto
  then show "sanitize_validated_args args = Inr (remove_null_keys args)"
    by (simp add: sanitize_validated_args_def remove_null_keys_def Let_def sanitize_items_no_str)
qed

theorem sanitize_validated_args_only_strings_witness:
  "sanitize_validated_args
     \<lparr>data = [(''network'', PStr ''Array_Of_Things''), (''nodes'', PList [''004E'']),
              (''sensors'', PStr ''TMP112,Bmp180''), (''geom'', PNone), (''limit'', PInt 1000),
              (''filter'', PStr ''A+B'')],
      errors = [], warnings = []\<rparr>
   = Inr \<lparr>data = [(''network'', PStr ''array_of_things''), (''nodes'', PList [''004E'']),
                  (''sensors'', PList [''tmp112'', ''bmp180'']), (''limit'', PInt 1000),
                  (''filter'', PStr ''a'')],
          errors = [], warnings = []\<rparr>
   \<and> map_of (data \<lparr>data = [(''network'', PStr ''array_of_things''), (''nodes'', PList [''004E'']),
                  (''sensors'', PList [''tmp112'', ''bmp180'']), (''limit'', PInt 1000),
                  (''filter'', PStr ''a'')],
          errors = [], warnings = []\<rparr>) ''nodes'' = Some (PList [''004E''])
   \<and> sanitize_validated_args \<lparr>data = [(''nodes'', PList [''004E'']), (''geom'', PNone)],
          errors = [], warnings = []\<rparr>
     = Inr \<lparr>data = [(''nodes'', PList [''004E''])], errors = [], warnings = []\<rparr>"
  using sanitize_validated_args_only_strings
    [of "\<lparr>data = [(''network'', PStr ''Array_Of_Things''), (''nodes'', PList [''004E'']),
              (''sensors'', PStr ''TMP112,Bmp180''), (''geom'', PNone), (''limit'', PInt 1000),
              (''filter'', PStr ''A+B'')],
      errors = [], warnings = []\<rparr>"
        "\<lparr>data = [(''network'', PStr ''array_of_things''), (''nodes'', PList [''004E'']),
                  (''sensors'', PList [''tmp112'', ''bmp180'']), (''limit'', PInt 1000),
                  (''filter'', PStr ''a'')],
          errors = [], warnings = []\<rparr>"]
    sanitize_validated_args_only_strings
    [of "\<lparr>data = [(''nodes'', PList [''004E'']), (''geom'', PNone)],
          errors = [], warnings = []\<rparr>"]
  by (simp add: sanitize_validated_args_def remove_null_keys_def Let_def list_keys_def
      lower_def lower_char_def split_first_def)

section \<open>The values valid at the features level\<close>

lemma split_first_takeWhile_fun: "split_first sep = takeWhile (\<lambda>c. c \<noteq> sep)"
  by (rule ext) (rule split_first_takeWhile)

text \<open>
  Claim C9. The values valid at the features level, inherited from the resolved sensors, are the
  values of each sensor's \<open>observed_properties\<close> cut before their first \<open>.\<close> (all of the value
  when it has none): \<open>temperature.degrees\<close> contributes \<open>temperature\<close>.
\<close>

theorem valid_values_features_before_first_dot:
  "valid_values ''features'' (Some (Resolved (Sensors ss))) =
     Inr (concat (map (\<lambda>sensor. map (takeWhile (\<lambda>c. c \<noteq> CHR ''.''))
                        (map snd (sensor_observed_properties sensor))) ss))
   \<and> valid_values ''features''
         (Some (Resolved (Sensors [\<lparr>sensor_name = ''tmp112'',
             sensor_observed_properties = [(''temperature'', ''temperature.degrees'')]\<rparr>])))
       = Inr [''temperature'']"
  by (simp add: valid_values_def split_first_takeWhile_fun)

section \<open>The observation query builder: window, limit and offset\<close>

lemma observation_query_Inr:
  assumes "observation_query args tbl = Inr q"
  obtains nc sc l off where
    "(if truthy (dict_get (data args) ''nodes'') then map_sum id Some (in_values (dict_get (data args) ''nodes'')) else Inr None) = Inr nc"
    "(if truthy (dict_get (data args) ''sensors'') then map_sum id Some (in_values (dict_get (data args) ''sensors'')) else Inr None) = Inr sc"
    "dict_item (data args) ''limit'' = Inr l"
    "dict_item (data args) ''offset'' = Inr off"
    "q = \<lparr>q_table = tbl, q_datetime_ge = dict_get (data args) ''start_datetime'',
          q_datetime_lt = dict_get (data args) ''end_datetime'',
          q_node_id_in = nc, q_sensor_in = sc,
          q_limit = (if truthy l then Some (dict_get (data args) ''limit'') else None),
          q_offset = (if truthy off then Some (dict_get (data args) ''offset'') else None)\<rparr>"
  using assms unfolding observation_query_def Let_def
  by (simp split: sum.splits)

lemma dict_item_get: "dict_item d k = Inr v \<Longrightarrow> dict_get d k = v"
  by (simp add: dict_item_def dict_get_def split: option.splits)

lemma map_of_Validator_dump:
  "map_of (Validator_dump utcnow only request) k =
     (if k \<in> set only then
        (case map_of request k of Some v \<Rightarrow> Some v | None \<Rightarrow> Validator_default utcnow k)
      else None)"
  unfolding Validator_dump_def
  by (induction only) (auto split: option.splits)

lemma query_rows_Inr:
  assumes "query_rows ts q rows = Inr sel"
  obtains off lim where
    "row_count_clause (q_offset q) = Inr off"
    "row_count_clause (q_limit q) = Inr lim"
    "sel = (case lim of None \<Rightarrow> (case off of None \<Rightarrow> filter (query_where ts q) rows
                                        | Some n \<Rightarrow> drop n (filter (query_where ts q) rows))
            | Some m \<Rightarrow> take m (case off of None \<Rightarrow> filter (query_where ts q) rows
                                  | Some n \<Rightarrow> drop n (filter (query_where ts q) rows)))"
  using assms unfolding query_rows_def Let_def
  by (simp split: sum.splits)

lemma query_rows_subset:
  assumes "query_rows ts q rows = Inr sel"
  shows "set sel \<subseteq> {r \<in> set rows. query_where ts q r}"
proof -
  let ?f = "filter (query_where ts q) rows"
  from assms obtain off lim where
    sel: "sel = (case lim of None \<Rightarrow> (case off of None \<Rightarrow> ?f | Some n \<Rightarrow> drop n ?f)
            | Some m \<Rightarrow> take m (case off of None \<Rightarrow> ?f | Some n \<Rightarrow> drop n ?f))"
    by (rule query_rows_Inr)
  have skipped: "set (case off of None \<Rightarrow> ?f | Some n \<Rightarrow> drop n ?f) \<subseteq> set ?f"
    by (cases off) (simp_all del: set_filter add: set_drop_subset)
  have "set sel \<subseteq> set (case off of None \<Rightarrow> ?f | Some n \<Rightarrow> drop n ?f)"
    unfolding sel by (cases lim) (simp_all del: set_filter add: set_take_subset)
  with skipped have "set sel \<subseteq> set ?f" by blast
  then show ?thesis by auto
qed

text \<open>
  Claim C5 says that the query selects exactly the rows of the window. With a limit of 1 in the
  record and two rows of the table in the window \<open>[10, 20)\<close>, the query selects the first
  only: the row at 11 is in the window and is not selected.
\<close>

theorem observation_query_limit_not_exact_counterexample:
  "observation_query
     \<lparr>data = [(''start_datetime'', PDateTime 10), (''end_datetime'', PDateTime 20),
              (''limit'', PInt 1), (''offset'', PInt 0)], errors = [], warnings = []\<rparr> ex_table
   = Inr \<lparr>q_table = ex_table, q_datetime_ge = PDateTime 10, q_datetime_lt = PDateTime 20,
          q_node_id_in = None, q_sensor_in = None, q_limit = Some (PInt 1), q_offset = None\<rparr>
   \<and> query_rows ex_ts
        \<lparr>q_table = ex_table, q_datetime_ge = PDateTime 10, q_datetime_lt = PDateTime 20,
          q_node_id_in = None, q_sensor_in = None, q_limit = Some (PInt 1), q_offset = None\<rparr>
        [ex_row 10, ex_row 11]
     = Inr [ex_row 10]
   \<and> 10 \<le> obs_datetime (ex_row 11) \<and> obs_datetime (ex_row 11) < 20
   \<and> ex_row 11 \<notin> set [ex_row 10]"
  by (simp add: observation_query_def dict_get_def dict_item_def query_rows_def
      row_count_clause_def query_where_def ex_ts_def ex_row_def)

text \<open>
  Claim C5, amended. For every feature table and window \<open>[s, e)\<close>, the filter of the query
  built by \<^verbatim>\<open>observation_query\<close> holds of a row exactly when \<open>s \<le> datetime < e\<close>, lower
  bound inclusive and upper bound exclusive, and the row passes the node filter and the sensor
  filter, each present exactly when the record gives a truthy value for it. Every row the query
  selects is a row of the table in the window. Without limit and offset the query selects
  exactly the rows that pass its filter, and with no node or sensor filter either, exactly the
  rows of the window.
\<close>

theorem observation_query_window_and_filters:
  assumes "observation_query args tbl = Inr q"
    and "ts (dict_get (data args) ''start_datetime'') = Some s"
    and "ts (dict_get (data args) ''end_datetime'') = Some e"
  shows "(query_where ts q r \<longleftrightarrow>
            s \<le> obs_datetime r \<and> obs_datetime r < e \<and>
            (case q_node_id_in q of None \<Rightarrow> True | Some l \<Rightarrow> lower (obs_node_id r) \<in> set l) \<and>
            (case q_sensor_in q of None \<Rightarrow> True | Some l \<Rightarrow> lower (obs_sensor r) \<in> set l)) \<and>
         (if truthy (dict_get (data args) ''nodes'')
          then map_sum id Some (in_values (dict_get (data args) ''nodes''))
          else Inr None) = Inr (q_node_id_in q) \<and>
         (if truthy (dict_get (data args) ''sensors'')
          then map_sum id Some (in_values (dict_get (data args) ''sensors''))
          else Inr None) = Inr (q_sensor_in q) \<and>
         (query_rows ts q rows = Inr sel \<longrightarrow>
            (\<forall>r \<in> set sel. r \<in> set rows \<and> s \<le> obs_datetime r \<and> obs_datetime r < e)) \<and>
         (\<not> truthy (dict_get (data args) ''limit'') \<and> \<not> truthy (dict_get (data args) ''offset'') \<longrightarrow>
            query_rows ts q rows = Inr (filter (query_where ts q) rows)) \<and>
         (\<not> truthy (dict_get (data args) ''nodes'') \<and> \<not> truthy (dict_get (data args) ''sensors'') \<and>
          \<not> truthy (dict_get (data args) ''limit'') \<and> \<not> truthy (dict_get (data args) ''offset'') \<longrightarrow>
            query_rows ts q rows = Inr (filter (\<lambda>r. s \<le> obs_datetime r \<and> obs_datetime r < e) rows))"
proof -
  from assms(1) obtain nc sc l off where
    nc: "(if truthy (dict_get (data args) ''nodes'') then map_sum id Some (in_values (dict_get (data args) ''nodes'')) else Inr None) = Inr nc" and
    sc: "(if truthy (dict_get (data args) ''sensors'') then map_sum id Some (in_values (dict_get (data args) ''sensors'')) else Inr None) = Inr sc" and
    l: "dict_item (data args) ''limit'' = Inr l" and
    off: "dict_item (data args) ''offset'' = Inr off" and
    q: "q = \<lparr>q_table = tbl, q_datetime_ge = dict_get (data args) ''start_datetime'',
          q_datetime_lt = dict_get (data args) ''end_datetime'',
          q_node_id_in = nc, q_sensor_in = sc,
          q_limit = (if truthy l then Some (dict_get (data args) ''limit'') else None),
          q_offset = (if truthy off then Some (dict_get (data args) ''offset'') else None)\<rparr>"
    by (rule observation_query_Inr)
  have qn: "q_node_id_in q = nc" and qs: "q_sensor_in q = sc" by (simp_all add: q)
  have wh: "query_where ts q r \<longleftrightarrow>
            s \<le> obs_datetime r \<and> obs_datetime r < e \<and>
            (case q_node_id_in q of None \<Rightarrow> True | Some l \<Rightarrow> lower (obs_node_id r) \<in> set l) \<and>
            (case q_sensor_in q of None \<Rightarrow> True | Some l \<Rightarrow> lower (obs_sensor r) \<in> set l)" for r
    using assms(2,3) by (simp add: query_where_def q)
  have sel: "\<forall>r \<in> set sel. r \<in> set rows \<and> s \<le> obs_datetime r \<and> obs_datetime r < e"
    if "query_rows ts q rows = Inr sel"
    using query_rows_subset [OF that] wh by auto
  have nolimit: "query_rows ts q rows = Inr (filter (query_where ts q) rows)"
    if f: "\<not> truthy (dict_get (data args) ''limit'')" "\<not> truthy (dict_get (data args) ''offset'')"
  proof -
    from l f(1) have "\<not> truthy l" by (simp add: dict_item_get)
    moreover from off f(2) have "\<not> truthy off" by (simp add: dict_item_get)
    ultimately have "q_limit q = None" "q_offset q = None" by (simp_all add: q)
    then show ?thesis by (simp add: query_rows_def row_count_clause_def)
  qed
  have exact: "query_rows ts q rows = Inr (filter (\<lambda>r. s \<le> obs_datetime r \<and> obs_datetime r < e) rows)"
    if f: "\<not> truthy (dict_get (data args) ''nodes'')" "\<not> truthy (dict_get (data args) ''sensors'')"
       "\<not> truthy (dict_get (data args) ''limit'')" "\<not> truthy (dict_get (data args) ''offset'')"
  proof -
    from nc f(1) have "nc = None" by simp
    moreover from sc f(2) have "sc = None" by simp
    ultimately have "query_where ts q = (\<lambda>r. s \<le> obs_datetime r \<and> obs_datetime r < e)"
      using wh qn qs by (simp add: fun_eq_iff)
    with nolimit [OF f(3,4)] show ?thesis by simp
  qed
  from wh nc sc qn qs sel nolimit exact show ?thesis by blast
qed

theorem observation_query_window_and_filters_witness:
  "observation_query
     \<lparr>data = [(''nodes'', PList [''004e'']), (''start_datetime'', PDateTime 10),
              (''end_datetime'', PDateTime 20), (''limit'', PInt 0), (''offset'', PInt 0)],
      errors = [], warnings = []\<rparr> ex_table
   = Inr \<lparr>q_table = ex_table, q_datetime_ge = PDateTime 10, q_datetime_lt = PDateTime 20,
          q_node_id_in = Some [''004e''], q_sensor_in = None, q_limit = None, q_offset = None\<rparr>
   \<and> query_rows ex_ts
        \<lparr>q_table = ex_table, q_datetime_ge = PDateTime 10, q_datetime_lt = PDateTime 20,
          q_node_id_in = Some [''004e''], q_sensor_in = None, q_limit = None, q_offset = None\<rparr>
        [ex_row 9, ex_row 10, ex_row 19, ex_row 20, ex_row 21]
     = Inr [ex_row 10, ex_row 19]
   \<and> observation_query
     \<lparr>data = [(''start_datetime'', PDateTime 10), (''end_datetime'', PDateTime 20),
              (''limit'', PInt 0), (''offset'', PInt 0)], errors = [], warnings = []\<rparr> ex_table
   = Inr \<lparr>q_table = ex_table, q_datetime_ge = PDateTime 10, q_datetime_lt = PDateTime 20,
          q_node_id_in = None, q_sensor_in = None, q_limit = None, q_offset = None\<rparr>
   \<and> query_rows ex_ts
        \<lparr>q_table = ex_table, q_datetime_ge = PDateTime 10, q_datetime_lt = PDateTime 20,
          q_node_id_in = None, q_sensor_in = None, q_limit = None, q_offset = None\<rparr>
        [ex_row 9, ex_row 10, ex_row 19, ex_row 20, ex_row 21]
     = Inr [ex_row 10, ex_row 19]"
  using observation_query_window_and_filters
    [of "\<lparr>data = [(''nodes'', PList [''004e'']), (''start_datetime'', PDateTime 10),
              (''end_datetime'', PDateTime 20), (''limit'', PInt 0), (''offset'', PInt 0)],
      errors = [], warnings = []\<rparr>"
        ex_table
        "\<lparr>q_table = ex_table, q_datetime_ge = PDateTime 10, q_datetime_lt = PDateTime 20,
          q_node_id_in = Some [''004e''], q_sensor_in = None, q_limit = None, q_offset = None\<rparr>"
        ex_ts 10 20 "ex_row 10" "[ex_row 9, ex_row 10, ex_row 19, ex_row 20, ex_row 21]"
        "[ex_row 10, ex_row 19]"]
    observation_query_window_and_filters
    [of "\<lparr>data = [(''start_datetime'', PDateTime 10), (''end_datetime'', PDateTime 20),
              (''limit'', PInt 0), (''offset'', PInt 0)], errors = [], warnings = []\<rparr>"
        ex_table
        "\<lparr>q_table = ex_table, q_datetime_ge = PDateTime 10, q_datetime_lt = PDateTime 20,
          q_node_id_in = None, q_sensor_in = None, q_limit = None, q_offset = None\<rparr>"
        ex_ts 10 20 "ex_row 10" "[ex_row 9, ex_row 10, ex_row 19, ex_row 20, ex_row 21]"
        "[ex_row 10, ex_row 19]"]
  by (simp add: observation_query_def dict_get_def dict_item_def in_values_def ex_ts_def
      ex_row_def query_where_def lower_def lower_char_def)

lemma filter_replicate_all: "P x \<Longrightarrow> filter P (replicate n x) = replicate n x"
  by (induction n) simp_all

lemma ex_dump:
 "Validator_dump 0 observation_fields
              [(''network'', PStr ''array_of_things''), (''feature'', PStr ''temperature'')] = 
   [(''network'', PStr ''array_of_things''), (''nodes'', PNone),
    (''start_datetime'', PDateTime (- 7776000000000)), (''end_datetime'', PDateTime 0), 
    (''geom'', PNone), (''feature'', PStr ''temperature''), (''sensors'', PNone), (''limit'', PInt 1000), (''offset'', PInt 0)]"
  by (simp add: Validator_dump_def observation_fields_def Validator_default_def)

text \<open>
  Claim C3 says that a request which gives no limit is not capped. The record validated with
  the fields of \<^verbatim>\<open>get_observations\<close> carries the validator's default limit 1000 for such a
  request, and \<^verbatim>\<open>observation_query\<close> puts the limit clause on the query: of 1001 rows in
  the window, 1000 are returned.
\<close>

theorem observation_query_omitted_limit_counterexample:
  "observation_query
     \<lparr>data = Validator_dump 0 observation_fields
              [(''network'', PStr ''array_of_things''), (''feature'', PStr ''temperature'')],
      errors = [], warnings = []\<rparr> ex_table
   = Inr \<lparr>q_table = ex_table, q_datetime_ge = PDateTime (- 7776000000000),
          q_datetime_lt = PDateTime 0, q_node_id_in = None, q_sensor_in = None,
          q_limit = Some (PInt 1000), q_offset = None\<rparr>
   \<and> map_sum id length
        (query_rows ex_ts
           \<lparr>q_table = ex_table, q_datetime_ge = PDateTime (- 7776000000000),
            q_datetime_lt = PDateTime 0, q_node_id_in = None, q_sensor_in = None,
            q_limit = Some (PInt 1000), q_offset = None\<rparr>
           (replicate 1001 (ex_row (- 1))))
     = Inr 1000"
proof -
  have "query_where ex_ts
           \<lparr>q_table = ex_table, q_datetime_ge = PDateTime (- 7776000000000),
            q_datetime_lt = PDateTime 0, q_node_id_in = None, q_sensor_in = None,
            q_limit = Some (PInt 1000), q_offset = None\<rparr> (ex_row (- 1))"
    by (simp add: query_where_def ex_ts_def ex_row_def)
  then show ?thesis
    by (simp add: ex_dump observation_query_def dict_get_def dict_item_def
        query_rows_def row_count_clause_def filter_replicate_all)
qed

text \<open>
  Claim C3, amended. \<^verbatim>\<open>observation_query\<close> puts a limit clause on the query exactly when
  the limit of the validated record is truthy (neither \<open>None\<close> nor 0), and an offset clause
  exactly when its offset is truthy; with neither, the query returns every row that its filters
  select. The validated record of a request that gives no limit and no offset carries the
  validator's defaults, limit 1000 and offset 0.
\<close>

theorem observation_query_limit_offset:
  "(observation_query args tbl = Inr q \<longrightarrow>
      q_limit q = (if truthy (dict_get (data args) ''limit'')
                   then Some (dict_get (data args) ''limit'') else None) \<and>
      q_offset q = (if truthy (dict_get (data args) ''offset'')
                    then Some (dict_get (data args) ''offset'') else None) \<and>
      (\<not> truthy (dict_get (data args) ''limit'') \<and> \<not> truthy (dict_get (data args) ''offset'') \<longrightarrow>
         query_rows ts q rows = Inr (filter (query_where ts q) rows)))
   \<and> (''limit'' \<in> set only \<and> map_of request ''limit'' = None \<longrightarrow>
         dict_get (Validator_dump utcnow only request) ''limit'' = PInt 1000)
   \<and> (''offset'' \<in> set only \<and> map_of request ''offset'' = None \<longrightarrow>
         dict_get (Validator_dump utcnow only request) ''offset'' = PInt 0)"
proof (intro conjI impI)
  assume built: "observation_query args tbl = Inr q"
  then obtain nc sc l off where
    l: "dict_item (data args) ''limit'' = Inr l" and
    off: "dict_item (data args) ''offset'' = Inr off" and
    q: "q = \<lparr>q_table = tbl, q_datetime_ge = dict_get (data args) ''start_datetime'',
          q_datetime_lt = dict_get (data args) ''end_datetime'',
          q_node_id_in = nc, q_sensor_in = sc,
          q_limit = (if truthy l then Some (dict_get (data args) ''limit'') else None),
          q_offset = (if truthy off then Some (dict_get (data args) ''offset'') else None)\<rparr>"
    by (rule observation_query_Inr)
  from l have l': "dict_get (data args) ''limit'' = l" by (rule dict_item_get)
  from off have off': "dict_get (data args) ''offset'' = off" by (rule dict_item_get)
  show lim: "q_limit q = (if truthy (dict_get (data args) ''limit'')
                   then Some (dict_get (data args) ''limit'') else None)"
    by (simp add: q l')
  show offs: "q_offset q = (if truthy (dict_get (data args) ''offset'')
                    then Some (dict_get (data args) ''offset'') else None)"
    by (simp add: q off')
  assume "\<not> truthy (dict_get (data args) ''limit'') \<and> \<not> truthy (dict_get (data args) ''offset'')"
  with lim offs have "q_limit q = None" "q_offset q = None" by simp_all
  then show "query_rows ts q rows = Inr (filter (query_where ts q) rows)"
    by (simp add: query_rows_def row_count_clause_def)
next
  assume "''limit'' \<in> set only \<and> map_of request ''limit'' = None"
  then show "dict_get (Validator_dump utcnow only request) ''limit'' = PInt 1000"
    by (simp add: dict_get_def map_of_Validator_dump Validator_default_def)
next
  assume "''offset'' \<in> set only \<and> map_of request ''offset'' = None"
  then show "dict_get (Validator_dump utcnow only request) ''offset'' = PInt 0"
    by (simp add: dict_get_def map_of_Validator_dump Validator_default_def)
qed

theorem observation_query_limit_offset_witness:
  "observation_query
     \<lparr>data = [(''start_datetime'', PDateTime 10), (''end_datetime'', PDateTime 20),
              (''limit'', PInt 5), (''offset'', PInt 0)], errors = [], warnings = []\<rparr> ex_table
   = Inr \<lparr>q_table = ex_table, q_datetime_ge = PDateTime 10, q_datetime_lt = PDateTime 20,
          q_node_id_in = None, q_sensor_in = None, q_limit = Some (PInt 5), q_offset = None\<rparr>
   \<and> observation_query
     \<lparr>data = [(''start_datetime'', PDateTime 10), (''end_datetime'', PDateTime 20),
              (''limit'', PNone), (''offset'', PInt 0)], errors = [], warnings = []\<rparr> ex_table
   = Inr \<lparr>q_table = ex_table, q_datetime_ge = PDateTime 10, q_datetime_lt = PDateTime 20,
          q_node_id_in = None, q_sensor_in = None, q_limit = None, q_offset = None\<rparr>
   \<and> dict_get (Validator_dump 0 observation_fields [(''feature'', PStr ''temperature'')]) ''limit''
       = PInt 1000
   \<and> dict_get (Validator_dump 0 observation_fields [(''feature'', PStr ''temperature'')]) ''offset''
       = PInt 0"
  using observation_query_limit_offset
    [of "\<lparr>data = [(''start_datetime'', PDateTime 10), (''end_datetime'', PDateTime 20),
              (''limit'', PInt 5), (''offset'', PInt 0)], errors = [], warnings = []\<rparr>"
        ex_table
        "\<lparr>q_table = ex_table, q_datetime_ge = PDateTime 10, q_datetime_lt = PDateTime 20,
          q_node_id_in = None, q_sensor_in = None, q_limit = Some (PInt 5), q_offset = None\<rparr>"
        ex_ts "[]" observation_fields "[(''feature'', PStr ''temperature'')]" 0]
    observation_query_limit_offset
    [of "\<lparr>data = [(''start_datetime'', PDateTime 10), (''end_datetime'', PDateTime 20),
              (''limit'', PNone), (''offset'', PInt 0)], errors = [], warnings = []\<rparr>"
        ex_table
        "\<lparr>q_table = ex_table, q_datetime_ge = PDateTime 10, q_datetime_lt = PDateTime 20,
          q_node_id_in = None, q_sensor_in = None, q_limit = None, q_offset = None\<rparr>"
        ex_ts "[ex_row 12]" observation_fields "[(''feature'', PStr ''temperature'')]" 0]
  by (simp add: observation_query_def dict_get_def dict_item_def observation_fields_def)

section \<open>Resolving a node filter that matches no node\<close>

text \<open>
  Claim C4 says that the error for the unknown node id \<open>zzz\<close> names the level nodes and echoes
  \<open>zzz\<close>. The message that \<^verbatim>\<open>metadata\<close> formats is built from the level above, network, and
  the records resolved for it; \<open>zzz\<close> is not in it. The validator's \<^verbatim>\<open>validate_nodes\<close>
  raises a validation error on the same id.
\<close>

theorem metadata_unknown_node_counterexample:
  "metadata ex_meta True ''nodes'' (PStr ''array_of_things'') (PList [''zzz'']) PNone PNone PNone
   = Inr (MResponse (bad_request (Message
       (EmptyMsg ''network'' (Resolved (Networks [ex_network])) ''nodes''))))
   \<and> metadata ex_meta True ''nodes'' (PStr ''array_of_things'') (PList [''zzz'']) PNone PNone PNone
   \<noteq> Inr (MResponse (bad_request (Message
       (EmptyMsg ''nodes'' (Given (PList [''zzz''])) ''nodes''))))
   \<and> validate_nodes [''004e''] (PList [''zzz'']) = Inl (ValidationError ''Invalid node ID: zzz'')"
  by (simp add: metadata_def filter_meta_def valid_values_def filter_list_def select_in_def
      ex_meta_def ex_network_def ex_node_def validate_nodes_def lower_def lower_char_def)

lemma filter_meta_unknown_nodes:
  assumes "filter_list nodes = Some vs" "vs \<noteq> []"
    and "\<forall>n \<in> set (db_nodes db). PStr (node_id n) \<notin> set vs"
  shows "filter_meta db ''nodes'' (Some (''network'', Resolved (Networks nets))) nodes geom
           = Inr (Nodes [])"
proof -
  have "filter (\<lambda>r. PStr (node_id r) \<in> set vs) xs = []" if "set xs \<subseteq> set (db_nodes db)" for xs
    using that assms(3) by (auto simp: filter_empty_conv)
  then have "select_in db ''nodes'' geom vs = Nodes []"
    by (simp add: select_in_def)
  with assms(1,2) show ?thesis
    by (simp add: filter_meta_def valid_values_def)
qed

text \<open>
  Claim C4, amended. When the network level resolves to some networks and the node filter
  matches no node, \<^verbatim>\<open>metadata\<close>, for a target below network, returns the client error of
  \<^verbatim>\<open>bad_request\<close> whose message names the level above, network, holds the records resolved
  for that level, and names the target; outside a request context the same message is raised as
  a ValueError. It is never an empty list of records.
\<close>

theorem metadata_unknown_node:
  assumes "filter_meta db ''network'' None network geom = Inr (Networks nets)"
    and "nets \<noteq> []"
    and "target \<noteq> ''network''"
    and "filter_list nodes = Some vs" and "vs \<noteq> []"
    and "\<forall>n \<in> set (db_nodes db). PStr (node_id n) \<notin> set vs"
  shows "metadata db True target network nodes sensors features geom
           = Inr (MResponse (bad_request (Message
               (EmptyMsg ''network'' (Resolved (Networks nets)) target))))
       \<and> metadata db False target network nodes sensors features geom
           = Inl (ValueError (EmptyMsg ''network'' (Resolved (Networks nets)) target))"
  using assms(1,2,3) filter_meta_unknown_nodes [OF assms(4,5,6), of nets geom]
  by (simp add: metadata_def)

theorem metadata_unknown_node_witness:
  "metadata ex_meta True ''features'' (PStr ''array_of_things'') (PList [''zzz'']) PNone PNone PNone
     = Inr (MResponse (bad_request (Message
         (EmptyMsg ''network'' (Resolved (Networks [ex_network])) ''features''))))
   \<and> metadata ex_meta False ''features'' (PStr ''array_of_things'') (PList [''zzz'']) PNone PNone PNone
     = Inl (ValueError (EmptyMsg ''network'' (Resolved (Networks [ex_network])) ''features''))"
  using metadata_unknown_node
    [of ex_meta "PStr ''array_of_things''" PNone "[ex_network]" "''features''"
        "PList [''zzz'']" "[PStr ''zzz'']" PNone PNone]
  by (simp add: filter_meta_def valid_values_def filter_list_def select_in_def
      ex_meta_def ex_network_def ex_node_def)

section \<open>Aggregations that cannot be computed\<close>

text \<open>
  Claim C8. When the request passes validation and the aggregate function raises ValueError,
  \<^verbatim>\<open>get_aggregations\<close> returns \<^verbatim>\<open>make_error\<close> with that message and status 422; a
  request with validation errors gets \<^verbatim>\<open>bad_request\<close> with the field errors, and the two
  responses are never the same.
\<close>

theorem get_aggregations_unprocessable:
  "(sanitize_args request_args = Inr ra \<and> errors (validate ra) = [] \<and>
    sanitize_validated_args (validate ra) = Inr va \<and>
    dict_get (data va) ''function'' = PStr f \<and> aggregate_fn_map f = Some fn \<and>
    fn va = Inl (ValueError msg) \<longrightarrow>
      get_aggregations validate aggregate_fn_map request_args = Inr (make_error msg 422))
   \<and> (sanitize_args request_args = Inr ra \<and> errors (validate ra) \<noteq> [] \<longrightarrow>
      get_aggregations validate aggregate_fn_map request_args
        = Inr (bad_request (FieldErrors (errors (validate ra)))))
   \<and> make_error msg 422 \<noteq> bad_request body"
  by (simp add: get_aggregations_def Let_def)

theorem get_aggregations_unprocessable_witness:
  "get_aggregations (\<lambda>d. \<lparr>data = d, errors = [], warnings = []\<rparr>)
     [''avg'' \<mapsto> (\<lambda>a. Inl (ValueError (Text ''no rows'')))]
     [(''network'', PStr ''array_of_things''), (''function'', PStr ''AVG'')]
   = Inr (make_error (Text ''no rows'') 422)
   \<and> get_aggregations (\<lambda>d. \<lparr>data = d, errors = [(''node'', [''Missing data'']) ], warnings = []\<rparr>)
     [''avg'' \<mapsto> (\<lambda>a. Inl (ValueError (Text ''no rows'')))]
     [(''network'', PStr ''array_of_things''), (''function'', PStr ''AVG'')]
   = Inr (bad_request (FieldErrors [(''node'', [''Missing data''])]))"
  using get_aggregations_unprocessable
    [of "[(''network'', PStr ''array_of_things''), (''function'', PStr ''AVG'')]"
        "[(''network'', PStr ''array_of_things''), (''function'', PStr ''avg'')]"
        "\<lambda>d. \<lparr>data = d, errors = [], warnings = []\<rparr>"
        "\<lparr>data = [(''network'', PStr ''array_of_things''), (''function'', PStr ''avg'')],
          errors = [], warnings = []\<rparr>"
        "''avg''" "[''avg'' \<mapsto> (\<lambda>a. Inl (ValueError (Text ''no rows'')))]"
        "\<lambda>a. Inl (ValueError (Text ''no rows''))" "Text ''no rows''"]
    get_aggregations_unprocessable
    [of "[(''network'', PStr ''array_of_things''), (''function'', PStr ''AVG'')]"
        "[(''network'', PStr ''array_of_things''), (''function'', PStr ''avg'')]"
        "\<lambda>d. \<lparr>data = d, errors = [(''node'', [''Missing data''])], warnings = []\<rparr>"]
  by (simp add: sanitize_args_def sanitize_validated_args_def remove_null_keys_def
      list_keys_def lower_def lower_char_def dict_get_def)

section \<open>Merged observations are sorted by time\<close>

lemma sort_keys_Inr:
  "sort_keys ev xs = Inr ks \<Longrightarrow>
     length ks = length xs \<and> (\<forall>(k, x) \<in> set (zip ks xs). parse ev (r_datetime x) = Inr k)"
proof (induction xs arbitrary: ks)
  case Nil
  then show ?case by simp
next
  case (Cons x xs)
  from Cons.prems obtain t ts where
    t: "parse ev (r_datetime x) = Inr t" and ts: "sort_keys ev xs = Inr ts" and ks: "ks = t # ts"
    by (auto split: sum.splits)
  from Cons.IH [OF ts] t ks show ?case by auto
qed

lemma map_snd_zip_same_length: "length ks = length xs \<Longrightarrow> map snd (zip ks xs) = xs"
  by (simp add: map_snd_zip)

text \<open>
  Claim C6. Whatever rows, in whatever order, the query of each feature table returns, the
  records in the response of \<^verbatim>\<open>run_observation_queries\<close> are the formatted rows of all the
  queries, in non-decreasing order of the time parsed from their formatted datetime.
\<close>

theorem run_observation_queries_sorted:
  assumes "run_observation_queries ev args queries = Inr resp"
  shows "\<exists>args' out keys observations.
           resp = jsonify args' (ObservationData out) \<and>
           map (\<lambda>x. parse ev (r_datetime x)) out = map Inr keys \<and>
           sorted keys \<and>
           collect_observations ev queries = Inr observations \<and>
           mset out = mset observations"
proof -
  from assms obtain observations ks where
    obs: "collect_observations ev queries = Inr observations" and
    ks: "sort_keys ev observations = Inr ks" and
    resp: "resp = jsonify ((remove_null_keys args)
               \<lparr>data := filter (\<lambda>(k, v). k \<noteq> ''geom'') (data (remove_null_keys args))\<rparr>)
             (ObservationData (map snd (sort_key fst (zip ks observations))))"
    by (auto simp: run_observation_queries_def Let_def split: sum.splits)
  let ?zs = "sort_key fst (zip ks observations)"
  from sort_keys_Inr [OF ks] have len: "length ks = length observations"
    and key: "\<forall>(k, x) \<in> set (zip ks observations). parse ev (r_datetime x) = Inr k"
    by simp_all
  have "\<forall>p \<in> set ?zs. parse ev (r_datetime (snd p)) = Inr (fst p)"
    using key by auto
  then have keys: "map (\<lambda>x. parse ev (r_datetime x)) (map snd ?zs) = map Inr (map fst ?zs)"
    by simp
  have sorted: "sorted (map fst ?zs)"
    by (rule sorted_sort_key)
  have "mset (map snd ?zs) = mset (map snd (zip ks observations))"
    by simp
  also have "\<dots> = mset observations"
    using len by (simp add: map_snd_zip_same_length)
  finally have perm: "mset (map snd ?zs) = mset observations" .
  from resp keys sorted obs perm show ?thesis by blast
qed

theorem run_observation_queries_sorted_witness:
  "run_observation_queries (ex_env 2 []) ex_args
     [(\<lparr>q_table = ex_table, q_datetime_ge = PDateTime 0, q_datetime_lt = PDateTime 100,
        q_node_id_in = None, q_sensor_in = None, q_limit = None, q_offset = None\<rparr>, ex_table)]
   = Inr (jsonify (ex_args\<lparr>data := filter (\<lambda>(k, v). k \<noteq> ''geom'' \<and> v \<noteq> PNone) (data ex_args)\<rparr>)
       (ObservationData
          [format_observation (ex_env 2 []) (ex_row 10) ex_table,
           format_observation (ex_env 2 []) (ex_row 30) ex_table]))"
  using run_observation_queries_sorted
    [of "ex_env 2 []" ex_args
        "[(\<lparr>q_table = ex_table, q_datetime_ge = PDateTime 0, q_datetime_lt = PDateTime 100,
        q_node_id_in = None, q_sensor_in = None, q_limit = None, q_offset = None\<rparr>, ex_table)]"
        "jsonify (ex_args\<lparr>data := filter (\<lambda>(k, v). k \<noteq> ''geom'' \<and> v \<noteq> PNone) (data ex_args)\<rparr>)
       (ObservationData
          [format_observation (ex_env 2 []) (ex_row 10) ex_table,
           format_observation (ex_env 2 []) (ex_row 30) ex_table])"]
  by (simp add: run_observation_queries_def ex_env_def ex_args_def remove_null_keys_def
      format_observation_def ex_row_def ex_isoformat_def ex_parse_def split_first_def)

section \<open>A failed commit in the export\<close>

lemma raised_Inl [simp]: "raised (Inl e) = Some e"
  by (simp add: raised_def)

lemma raised_Inr [simp]: "raised (Inr a) = None"
  by (simp add: raised_def)

lemma failed_commit_stops_refl: "failed_commit_stops ev s s err"
  by (auto simp: failed_commit_stops_def)

lemma failed_commit_stops_weaken:
  "failed_commit_stops ev s s' None \<Longrightarrow> failed_commit_stops ev s s' err"
  by (auto simp: failed_commit_stops_def)

lemma failed_commit_stops_trans:
  assumes "failed_commit_stops ev s s1 None" and "failed_commit_stops ev s1 s2 err"
  shows "failed_commit_stops ev s s2 err"
  unfolding failed_commit_stops_def
proof (rule conjI, goal_cases)
  case 1
  from assms show "commit_count s \<le> commit_count s2"
    by (simp add: failed_commit_stops_def)
next
  case 2
  show ?case
  proof (intro allI impI)
  fix i e
  assume i: "commit_count s \<le> i \<and> i < commit_count s2 \<and> commit_error ev i = Some e"
  have "\<not> i < commit_count s1"
    using assms(1) i by (auto simp: failed_commit_stops_def)
  then have "commit_count s1 \<le> i" by simp
  with assms(2) i show "err = Some e \<and> Suc i = commit_count s2 \<and> session_new s2 = [] \<and>
       (\<exists>before. calls s2 = before @ [Add, Commit, Rollback])"
    unfolding failed_commit_stops_def by blast
  qed
qed

lemma store_chunk_commit_failed:
  assumes "commit_error ev (commit_count s) = Some e"
  shows "store_chunk ev chunk chunk_count chunk_number request_id s =
           (Inl e, s\<lparr>urandom_count := Suc (urandom_count s), session_new := [],
                      calls := calls s @ [Add, Commit, Rollback],
                      commit_count := Suc (commit_count s)\<rparr>)"
  using assms
  by (simp add: store_chunk_def session_add_def session_commit_def session_rollback_def Let_def)

lemma store_chunk_commit_ok:
  assumes "commit_error ev (commit_count s) = None"
  shows "commit_count (snd (store_chunk ev chunk chunk_count chunk_number request_id s))
           = Suc (commit_count s)"
  using assms
  by (simp add: store_chunk_def session_add_def session_commit_def session_rollback_def Let_def
      split: pyval.splits)

lemma store_chunk_stops:
  assumes "store_chunk ev chunk chunk_count chunk_number request_id s = (res, s')"
  shows "failed_commit_stops ev s s' (raised res)"
proof (cases "commit_error ev (commit_count s)")
  case None
  from store_chunk_commit_ok [OF None, of chunk chunk_count chunk_number request_id] assms
  have "commit_count s' = Suc (commit_count s)" by simp
  with None show ?thesis
    by (auto simp: failed_commit_stops_def less_Suc_eq_le)
next
  case (Some e)
  from store_chunk_commit_failed [OF Some, of chunk chunk_count chunk_number request_id] assms
  have "res = Inl e" and
    "s' = s\<lparr>urandom_count := Suc (urandom_count s), session_new := [],
                      calls := calls s @ [Add, Commit, Rollback],
                      commit_count := Suc (commit_count s)\<rparr>"
    by simp_all
  with Some show ?thesis
    by (auto simp: failed_commit_stops_def raised_def less_Suc_eq_le)
qed

lemma chunk_rows_stops:
  "chunk_rows ev chunk_count request_id tbl rows chunk chunk_number s = (res, s') \<Longrightarrow>
     failed_commit_stops ev s s' (raised res)"
proof (induction rows arbitrary: chunk chunk_number s)
  case Nil
  then show ?case by (simp add: failed_commit_stops_refl)
next
  case (Cons row rows)
  let ?chunk1 = "chunk @ [format_observation ev row tbl]"
  show ?case
  proof (cases "length ?chunk1 > chunk_size")
    case False
    with Cons.prems have
      "chunk_rows ev chunk_count request_id tbl rows ?chunk1 chunk_number s = (res, s')"
      by (simp add: Let_def)
    then show ?thesis by (rule Cons.IH)
  next
    case True
    obtain r1 s1 where st: "store_chunk ev ?chunk1 chunk_count chunk_number request_id s = (r1, s1)"
      by (cases "store_chunk ev ?chunk1 chunk_count chunk_number request_id s")
    from store_chunk_stops [OF st] have stop1: "failed_commit_stops ev s s1 (raised r1)" .
    show ?thesis
    proof (cases r1)
      case (Inl e)
      with Cons.prems True st have res: "res = Inl e" and s': "s' = s1"
        by (simp_all add: Let_def)
      from stop1 Inl show ?thesis unfolding res s' by simp
    next
      case (Inr u)
      with Cons.prems True st have
        "chunk_rows ev chunk_count request_id tbl rows [] (chunk_number + 1) s1 = (res, s')"
        by (simp add: Let_def)
      then have "failed_commit_stops ev s1 s' (raised res)" by (rule Cons.IH)
      moreover from stop1 Inr have "failed_commit_stops ev s s1 None" by (simp add: raised_def)
      ultimately show ?thesis by (rule failed_commit_stops_trans [rotated])
    qed
  qed
qed

lemma chunk_tables_stops:
  "chunk_tables ev chunk_count request_id queries chunk chunk_number features s = (res, s') \<Longrightarrow>
     failed_commit_stops ev s s' (raised res)"
proof (induction queries arbitrary: chunk chunk_number features s)
  case Nil
  then show ?case by (simp add: failed_commit_stops_refl)
next
  case (Cons qt rest)
  obtain q tbl where qt: "qt = (q, tbl)" by (cases qt)
  obtain r1 s1 where rows:
    "chunk_rows ev chunk_count request_id tbl (fst (windowed_query ev q)) chunk chunk_number s = (r1, s1)"
    by (cases "chunk_rows ev chunk_count request_id tbl (fst (windowed_query ev q)) chunk chunk_number s")
  from chunk_rows_stops [OF rows] have stop1: "failed_commit_stops ev s s1 (raised r1)" .
  show ?case
  proof (cases r1)
    case (Inl e)
    with Cons.prems qt rows have res: "res = Inl e" and s': "s' = s1"
      by (simp_all add: Let_def)
    from stop1 Inl show ?thesis unfolding res s' by simp
  next
    case (Inr cn)
    obtain chunk1 number1 where cn: "cn = (chunk1, number1)" by (cases cn)
    from stop1 Inr have none: "failed_commit_stops ev s s1 None" by (simp add: raised_def)
    show ?thesis
    proof (cases "snd (windowed_query ev q)")
      case (Some e)
      with Cons.prems qt rows Inr cn have s': "s' = s1" by (simp add: Let_def)
      from none show ?thesis unfolding s' by (rule failed_commit_stops_weaken)
    next
      case None
      with Cons.prems qt rows Inr cn have
        "chunk_tables ev chunk_count request_id rest chunk1 number1
           (List.insert (lower (table_name tbl)) features) s1 = (res, s')"
        by (simp add: Let_def)
      then have "failed_commit_stops ev s1 s' (raised res)" by (rule Cons.IH)
      with none show ?thesis by (rule failed_commit_stops_trans)
    qed
  qed
qed

lemma summary_commit_stops:
  assumes "session_commit ev (session_add d s) = (r, s3)"
  shows "(case r of Inl e \<Rightarrow> failed_commit_stops ev s (session_rollback s3) (Some e)
          | Inr u \<Rightarrow> failed_commit_stops ev s s3 None)"
proof (cases "commit_error ev (commit_count s)")
  case None
  with assms show ?thesis
    by (auto simp: session_commit_def session_add_def failed_commit_stops_def less_Suc_eq_le)
next
  case (Some e)
  with assms show ?thesis
    by (auto simp: session_commit_def session_add_def session_rollback_def
        failed_commit_stops_def less_Suc_eq_le)
qed

lemma datadump_queries_stops:
  assumes run: "datadump_queries ev args request_id queries s = (res, s')"
  shows "failed_commit_stops ev s s' (raised res)"
proof (cases "count_rows ev queries")
  case (Inl e)
  from run [unfolded datadump_queries_def Inl sum.case] have "s' = s" by simp
  then show ?thesis by (simp add: failed_commit_stops_refl)
next
  case (Inr row_count)
  let ?cc = "(row_count + (chunk_size - 1)) div chunk_size"
  obtain r1 s1 where tables: "chunk_tables ev ?cc request_id queries [] 1 [] s = (r1, s1)"
    by (cases "chunk_tables ev ?cc request_id queries [] 1 [] s")
  from chunk_tables_stops [OF tables] have stop1: "failed_commit_stops ev s s1 (raised r1)" .
  show ?thesis
  proof (cases r1)
    case (Inl e)
    from run [unfolded datadump_queries_def Let_def Inr sum.case tables Inl prod.case]
    have res: "res = Inl e" and s': "s' = s1" by simp_all
    from stop1 Inl show ?thesis unfolding res s' by simp
  next
    case r1: (Inr cnf)
    obtain chunk chunk_number features where cnf: "cnf = (chunk, chunk_number, features)"
      by (cases cnf)
    from stop1 r1 have none1: "failed_commit_stops ev s s1 None" by simp
    let ?last = "if length chunk > 0 then store_chunk ev chunk ?cc chunk_number request_id s1
                 else (Inr (), s1)"
    obtain r2 s2 where last: "?last = (r2, s2)" by (cases ?last)
    have stop2: "failed_commit_stops ev s1 s2 (raised r2)"
    proof (cases "length chunk > 0")
      case True
      with last have "store_chunk ev chunk ?cc chunk_number request_id s1 = (r2, s2)"
        by (simp only: if_True)
      then show ?thesis by (rule store_chunk_stops)
    next
      case False
      with last have "(Inr (), s1) = (r2, s2)" by (simp only: if_False)
      then show ?thesis by (auto simp: failed_commit_stops_refl)
    qed
    note run1 = run [unfolded datadump_queries_def Let_def Inr sum.case tables r1 cnf prod.case last]
    show ?thesis
    proof (cases r2)
      case (Inl e)
      from run1 [unfolded Inl sum.case] have res: "res = Inl e" and s': "s' = s2" by simp_all
      from none1 stop2 Inl show ?thesis unfolding res s'
        by (simp add: failed_commit_stops_trans)
    next
      case r2: (Inr u)
      from none1 stop2 r2 have none2: "failed_commit_stops ev s s2 None"
        by (simp add: failed_commit_stops_trans)
      note run2 = run1 [unfolded r2 sum.case]
      show ?thesis
      proof (cases "dict_item (data args) ''jobsframework_workerid''")
        case (Inl e)
        from run2 [unfolded Inl sum.case] have s': "s' = s2" by simp
        from none2 show ?thesis unfolding s' by (rule failed_commit_stops_weaken)
      next
        case worker: (Inr worker)
        let ?dump = "\<lparr>dump_id = request_id, dump_request = request_id, dump_part = 0,
                  dump_total = ?cc,
                  dump_data = MetaJSON (meta_startTime (job_statuses s2 request_id)) (now ev)
                         [worker] features\<rparr>"
        obtain r3 s3 where commit: "session_commit ev (session_add ?dump s2) = (r3, s3)"
          by (cases "session_commit ev (session_add ?dump s2)")
        note summary = summary_commit_stops [OF commit]
        note run3 = run2 [unfolded worker sum.case commit]
        show ?thesis
        proof (cases r3)
          case (Inl e)
          from run3 [unfolded Inl sum.case prod.case]
          have res: "res = Inl e" and s': "s' = session_rollback s3" by simp_all
          from summary Inl have "failed_commit_stops ev s2 (session_rollback s3) (Some e)"
            by simp
          with none2 show ?thesis unfolding res s'
            by (simp add: failed_commit_stops_trans)
        next
          case r3: (Inr u3)
          from run3 [unfolded r3 sum.case prod.case] have s': "s' = s3"
            by (auto split: sum.splits pyval.splits)
          from summary r3 have "failed_commit_stops ev s2 s3 None" by simp
          with none2 have "failed_commit_stops ev s s3 None"
            by (rule failed_commit_stops_trans)
          then show ?thesis unfolding s' by (rule failed_commit_stops_weaken)
        qed
      qed
    qed
  qed
qed

lemma get_observation_datadump_stops:
  assumes "get_observation_datadump ev args s = (res, s')"
  shows "failed_commit_stops ev s s' (raised res)"
proof (cases "get_observation_queries ev args")
  case (Inl e)
  with assms have "s' = s" by (simp add: get_observation_datadump_def)
  then show ?thesis by (simp add: failed_commit_stops_refl)
next
  case (Inr aq)
  obtain args1 qs where aq: "aq = (args1, qs)" by (cases aq)
  show ?thesis
  proof (cases qs)
    case (Inl other)
    with assms Inr aq have "s' = s" by (simp add: get_observation_datadump_def)
    then show ?thesis by (simp add: failed_commit_stops_refl)
  next
    case qs: (Inr queries)
    with assms Inr aq have
      "datadump_queries ev args1 (dict_get (data args) ''jobsframework_ticket'') queries s = (res, s')"
      by (simp add: get_observation_datadump_def)
    then show ?thesis by (rule datadump_queries_stops)
  qed
qed

lemma ex_get_observation_queries:
  "get_observation_queries (ex_env n failing) ex_args = Inr (ex_args1, Inr [(ex_query, ex_table)])"
  by (simp add: get_observation_queries_def sanitize_validated_args_def remove_null_keys_def
      ex_args_def ex_args1_def list_keys_def lower_def lower_char_def
      get_raw_metadata_def metadata_def dict_get_def dict_item_def
      filter_meta_def valid_values_def filter_list_def select_in_def split_first_def
      ex_env_def ex_meta_def ex_network_def ex_node_def ex_sensor_def ex_feature_def
      observation_query_def ex_query_def)

text \<open>
  Claim C7. When the commit of a chunk fails, \<^verbatim>\<open>store_chunk\<close> rolls the session back and
  raises the exception of the commit; the job statuses, and with them the progress, stay as they
  were. In a run of \<^verbatim>\<open>get_observation_datadump\<close>, whichever commit fails, of a chunk or of
  the summary record: the run ends with that exception, it attempts no further commit, nothing
  is left pending in the session, and the last calls it made are the add, the failed commit and
  the rollback, so that no progress was written after the failed commit.
\<close>

theorem failed_commit_rolls_back_and_reraises:
  "(commit_error ev (commit_count s) = Some e \<longrightarrow>
      store_chunk ev chunk chunk_count chunk_number request_id s =
        (Inl e, s\<lparr>urandom_count := Suc (urandom_count s), session_new := [],
                   calls := calls s @ [Add, Commit, Rollback],
                   commit_count := Suc (commit_count s)\<rparr>))
   \<and> (get_observation_datadump ev args s = (res, s') \<and>
       commit_count s \<le> i \<and> i < commit_count s' \<and> commit_error ev i = Some e \<longrightarrow>
         res = Inl e \<and> Suc i = commit_count s' \<and> session_new s' = [] \<and>
         (\<exists>before. calls s' = before @ [Add, Commit, Rollback]))"
proof (rule conjI, goal_cases)
  case 1
  show ?case by (simp add: store_chunk_commit_failed)
next
  case 2
  show ?case
  proof (rule impI)
    assume h: "get_observation_datadump ev args s = (res, s') \<and>
       commit_count s \<le> i \<and> i < commit_count s' \<and> commit_error ev i = Some e"
    then have "get_observation_datadump ev args s = (res, s')" by simp
    then have "failed_commit_stops ev s s' (raised res)"
      by (rule get_observation_datadump_stops)
    with h have "raised res = Some e \<and> Suc i = commit_count s' \<and> session_new s' = [] \<and>
         (\<exists>before. calls s' = before @ [Add, Commit, Rollback])"
      unfolding failed_commit_stops_def by blast
    then show "res = Inl e \<and> Suc i = commit_count s' \<and> session_new s' = [] \<and>
         (\<exists>before. calls s' = before @ [Add, Commit, Rollback])"
      by (cases res) simp_all
  qed
qed

section \<open>The export on the example store\<close>

lemma ex_env_fields:
  "fast_count (ex_env n failing) q = Inr n"
  "windowed_query (ex_env n failing) q = (replicate n (ex_row 10), None)"
  "commit_error (ex_env n failing) i = (if i \<in> set failing then Some (DatabaseError ''commit'') else None)"
  "urandom_hex (ex_env n failing) i = ''00''"
  "now (ex_env n failing) = ''2017-02-01 00:00:00''"
  by (simp_all add: ex_env_def)

lemma ex_get_observation_datadump:
  "get_observation_datadump (ex_env n failing) ex_args s =
     datadump_queries (ex_env n failing) ex_args1 (PStr ''ticket1'') [(ex_query, ex_table)] s"
proof -
  have "dict_get (data ex_args) ''jobsframework_ticket'' = PStr ''ticket1''"
    by (simp add: ex_args_def dict_get_def)
  then show ?thesis
    by (simp add: get_observation_datadump_def ex_get_observation_queries)
qed

lemma chunk_rows_fill:
  "length chunk + length rows \<le> chunk_size \<Longrightarrow>
     chunk_rows ev chunk_count request_id tbl rows chunk chunk_number s =
       (Inr (chunk @ map (\<lambda>row. format_observation ev row tbl) rows, chunk_number), s)"
  by (induction rows arbitrary: chunk) (simp_all add: Let_def)

lemma chunk_rows_append:
  "chunk_rows ev chunk_count request_id tbl (xs @ ys) chunk chunk_number s =
     (case chunk_rows ev chunk_count request_id tbl xs chunk chunk_number s of
        (Inl e, s1) \<Rightarrow> (Inl e, s1)
      | (Inr (chunk1, number1), s1) \<Rightarrow>
          chunk_rows ev chunk_count request_id tbl ys chunk1 number1 s1)"
  by (induction xs arbitrary: chunk chunk_number s)
     (auto simp: Let_def split: prod.splits sum.splits)

lemma chunk_rows_overflow:
  assumes "length chunk + length rows = chunk_size"
  shows "chunk_rows ev chunk_count request_id tbl (rows @ [row]) chunk chunk_number s =
     (case store_chunk ev (chunk @ map (\<lambda>row. format_observation ev row tbl) (rows @ [row]))
             chunk_count chunk_number request_id s of
        (Inl e, s1) \<Rightarrow> (Inl e, s1)
      | (Inr u, s1) \<Rightarrow> (Inr ([], chunk_number + 1), s1))"
  using assms
  by (simp add: chunk_rows_append chunk_rows_fill Let_def split: prod.splits sum.splits)

lemma ex_datadump_after_tables:
  assumes "chunk_rows (ex_env n failing) ((n + 999) div 1000) (PStr ''ticket1'') ex_table
             (replicate n (ex_row 10)) [] 1 s = (Inr (chunk, number), s1)"
  shows "datadump_queries (ex_env n failing) ex_args1 (PStr ''ticket1'') [(ex_query, ex_table)] s =
     (case (if length chunk > 0
            then store_chunk (ex_env n failing) chunk ((n + 999) div 1000) number (PStr ''ticket1'') s1
            else (Inr (), s1)) of
        (Inl e, s2) \<Rightarrow> (Inl e, s2)
      | (Inr u, s2) \<Rightarrow>
          (case session_commit (ex_env n failing)
                  (session_add \<lparr>dump_id = PStr ''ticket1'', dump_request = PStr ''ticket1'',
                                dump_part = 0, dump_total = (n + 999) div 1000,
                                dump_data = MetaJSON (meta_startTime (job_statuses s2 (PStr ''ticket1'')))
                                  ''2017-02-01 00:00:00'' [PStr ''worker1''] [''temperature'']\<rparr> s2) of
             (Inl e, s3) \<Rightarrow> (Inl e, session_rollback s3)
           | (Inr u, s3) \<Rightarrow> (Inr (UrlDict ''http://host/v1/api/datadump/ticket1''), s3)))"
proof -
  have tbl: "lower (table_name ex_table) = ''temperature''"
    by (simp add: ex_table_def lower_def lower_char_def)
  have worker: "dict_item (data ex_args1) ''jobsframework_workerid'' = Inr (PStr ''worker1'')"
    and root: "dict_item (data ex_args1) ''datadump_urlroot'' = Inr (PStr ''http://host/'')"
    by (simp_all add: ex_args1_def dict_item_def)
  show ?thesis
    using assms
    by (simp add: datadump_queries_def ex_env_fields chunk_size_def Let_def tbl worker root
        split: prod.splits sum.splits)
qed

lemma store_chunk_ok:
  assumes "commit_error ev (commit_count s) = None"
  shows "store_chunk ev chunk chunk_count chunk_number (PStr r) s =
     (Inr (),
      s\<lparr>urandom_count := Suc (urandom_count s),
        session_new := [],
        datadump_table := datadump_table s @ session_new s @
          [\<lparr>dump_id = PStr (urandom_hex ev (urandom_count s)), dump_request = PStr r,
            dump_part = chunk_number, dump_total = chunk_count, dump_data = ChunkJSON chunk\<rparr>],
        calls := calls s @ [Add, Commit, SetStatus (PStr r) chunk_number chunk_count,
                            SetFlag (r @ ''_suppresscleanup'')],
        commit_count := Suc (commit_count s),
        job_statuses := (job_statuses s)
          (PStr r := (job_statuses s (PStr r))\<lparr>progress := Some (chunk_number, chunk_count)\<rparr>),
        flags := flags s @ [(r @ ''_suppresscleanup'', True, 10800)]\<rparr>)"
  using assms
  by (simp add: store_chunk_def session_add_def session_commit_def Let_def)

lemma ex_datadump_two_rows_first_commit_fails:
  "get_observation_datadump (ex_env 2 [0]) ex_args ex_state
     = (Inl (DatabaseError ''commit''),
        ex_state\<lparr>urandom_count := Suc 0, session_new := [],
                  calls := [Add, Commit, Rollback], commit_count := Suc 0\<rparr>)"
proof -
  have "chunk_rows (ex_env 2 [0]) ((2 + 999) div 1000) (PStr ''ticket1'') ex_table
             (replicate 2 (ex_row 10)) [] 1 ex_state
        = (Inr (replicate 2 (format_observation (ex_env 2 [0]) (ex_row 10) ex_table), 1), ex_state)"
    by (simp add: chunk_rows_fill chunk_size_def)
  from ex_datadump_after_tables [OF this] show ?thesis
    by (simp add: ex_get_observation_datadump store_chunk_commit_failed ex_env_fields ex_state_def)
qed

theorem failed_commit_rolls_back_and_reraises_witness:
  "store_chunk (ex_env 2 [0]) [] 1 1 (PStr ''ticket1'') ex_state
     = (Inl (DatabaseError ''commit''),
        ex_state\<lparr>urandom_count := Suc 0, session_new := [],
                  calls := [Add, Commit, Rollback], commit_count := Suc 0\<rparr>)
   \<and> get_observation_datadump (ex_env 2 [0]) ex_args ex_state
     = (Inl (DatabaseError ''commit''),
        ex_state\<lparr>urandom_count := Suc 0, session_new := [],
                  calls := [Add, Commit, Rollback], commit_count := Suc 0\<rparr>)
   \<and> job_statuses (snd (get_observation_datadump (ex_env 2 [0]) ex_args ex_state))
     = job_statuses ex_state"
  using failed_commit_rolls_back_and_reraises
    [of "ex_env 2 [0]" ex_state "DatabaseError ''commit''" "[]" 1 1 "PStr ''ticket1''" ex_args
        "Inl (DatabaseError ''commit'')"
        "ex_state\<lparr>urandom_count := Suc 0, session_new := [],
                  calls := [Add, Commit, Rollback], commit_count := Suc 0\<rparr>" 0]
    ex_datadump_two_rows_first_commit_fails
  by (simp add: ex_env_def ex_state_def)

section \<open>The size of the parts\<close>

lemma replicate_1001: "replicate 1001 x = replicate 1000 x @ [x]"
proof -
  have "replicate (1000 + 1) x = replicate 1000 x @ replicate 1 x" by (rule replicate_add)
  then show ?thesis by simp
qed

lemma replicate_2000: "replicate 2000 x = (replicate 1000 x @ [x]) @ replicate 999 x"
proof -
  have "replicate (1001 + 999) x = replicate 1001 x @ replicate 999 x" by (rule replicate_add)
  then show ?thesis by (simp add: replicate_1001)
qed

lemma ex_first_chunk:
  assumes "commit_error ev (commit_count s) = None"
  shows "chunk_rows ev chunk_count (PStr r) tbl (replicate 1000 row @ [row]) [] 1 s =
     (Inr ([], 2),
      s\<lparr>urandom_count := Suc (urandom_count s),
        session_new := [],
        datadump_table := datadump_table s @ session_new s @
          [\<lparr>dump_id = PStr (urandom_hex ev (urandom_count s)), dump_request = PStr r,
            dump_part = 1, dump_total = chunk_count,
            dump_data = ChunkJSON (replicate 1001 (format_observation ev row tbl))\<rparr>],
        calls := calls s @ [Add, Commit, SetStatus (PStr r) 1 chunk_count,
                            SetFlag (r @ ''_suppresscleanup'')],
        commit_count := Suc (commit_count s),
        job_statuses := (job_statuses s)
          (PStr r := (job_statuses s (PStr r))\<lparr>progress := Some (1, chunk_count)\<rparr>),
        flags := flags s @ [(r @ ''_suppresscleanup'', True, 10800)]\<rparr>)"
proof -
  have "length ([] :: obs_response list) + length (replicate 1000 row) = chunk_size"
    by (simp add: chunk_size_def)
  note step = chunk_rows_overflow [OF this, of ev chunk_count "PStr r" tbl row 1 s]
  have m: "[] @ map (\<lambda>row. format_observation ev row tbl) (replicate 1000 row @ [row])
             = replicate 1001 (format_observation ev row tbl)"
    by (simp add: replicate_1001)
  show ?thesis
    unfolding step m store_chunk_ok [OF assms] by simp
qed

text \<open>
  Claim C2 says that 1001 rows give two parts, of 1000 rows and of 1 row. The code stores a chunk
  only once it holds more than 1000 rows: on the example store with 1001 rows, where every
  commit succeeds, the export ends normally with one part of 1001 rows (and the summary row,
  part 0), the total announced is 2, and the progress stays at 1 of 2.
\<close>

theorem datadump_1001_rows_one_part:
  "fst (get_observation_datadump (ex_env 1001 []) ex_args ex_state)
     = Inr (UrlDict ''http://host/v1/api/datadump/ticket1'')
   \<and> part_sizes (snd (get_observation_datadump (ex_env 1001 []) ex_args ex_state))
     = [(1, 2, 1001), (0, 2, 0)]
   \<and> progress (job_statuses (snd (get_observation_datadump (ex_env 1001 []) ex_args ex_state))
        (PStr ''ticket1''))
     = Some (1, 2)"
proof -
  have "commit_error (ex_env 1001 []) (commit_count ex_state) = None"
    by (simp add: ex_env_fields)
  from ex_first_chunk [OF this, of 2 "''ticket1''" ex_table "ex_row 10"]
  have "chunk_rows (ex_env 1001 []) ((1001 + 999) div 1000) (PStr ''ticket1'') ex_table
          (replicate 1001 (ex_row 10)) [] 1 ex_state
        = (Inr ([], 2),
      ex_state\<lparr>urandom_count := Suc (urandom_count ex_state),
        session_new := [],
        datadump_table := datadump_table ex_state @ session_new ex_state @
          [\<lparr>dump_id = PStr (urandom_hex (ex_env 1001 []) (urandom_count ex_state)),
            dump_request = PStr ''ticket1'',
            dump_part = 1, dump_total = 2,
            dump_data = ChunkJSON
              (replicate 1001 (format_observation (ex_env 1001 []) (ex_row 10) ex_table))\<rparr>],
        calls := calls ex_state @ [Add, Commit, SetStatus (PStr ''ticket1'') 1 2,
                            SetFlag (''ticket1'' @ ''_suppresscleanup'')],
        commit_count := Suc (commit_count ex_state),
        job_statuses := (job_statuses ex_state)
          (PStr ''ticket1'' := (job_statuses ex_state (PStr ''ticket1''))\<lparr>progress := Some (1, 2)\<rparr>),
        flags := flags ex_state @ [(''ticket1'' @ ''_suppresscleanup'', True, 10800)]\<rparr>)"
    by (simp only: replicate_1001) simp
  from ex_datadump_after_tables [OF this] show ?thesis
    by (simp add: ex_get_observation_datadump session_commit_def session_add_def
        ex_env_fields ex_state_def part_sizes_def)
qed

lemma ex_two_chunks:
  assumes "commit_error ev (commit_count s) = None"
  shows "chunk_rows ev chunk_count (PStr r) tbl (replicate 2000 row) [] 1 s =
     (Inr (replicate 999 (format_observation ev row tbl), 2),
      snd (chunk_rows ev chunk_count (PStr r) tbl (replicate 1000 row @ [row]) [] 1 s))"
proof -
  have "length ([] :: obs_response list) + length (replicate 999 row) \<le> chunk_size"
    by (simp add: chunk_size_def)
  note rest = chunk_rows_fill [OF this, of ev chunk_count "PStr r" tbl 2]
  show ?thesis
    unfolding replicate_2000 chunk_rows_append [of _ _ _ _ "replicate 1000 row @ [row]"]
      ex_first_chunk [OF assms] prod.case sum.case rest
    by simp
qed

text \<open>
  Claim C1 says that \<open>k * 1000\<close> rows give \<open>k\<close> parts of 1000 rows each. For \<open>k = 2\<close>, on the
  example store with 2000 rows, where every commit succeeds, the export ends normally with a
  part of 1001 rows and a part of 999 rows (and the summary row, part 0); the progress ends at
  2 of 2.
\<close>

theorem datadump_2000_rows_part_sizes:
  "fst (get_observation_datadump (ex_env 2000 []) ex_args ex_state)
     = Inr (UrlDict ''http://host/v1/api/datadump/ticket1'')
   \<and> part_sizes (snd (get_observation_datadump (ex_env 2000 []) ex_args ex_state))
     = [(1, 2, 1001), (2, 2, 999), (0, 2, 0)]
   \<and> progress (job_statuses (snd (get_observation_datadump (ex_env 2000 []) ex_args ex_state))
        (PStr ''ticket1''))
     = Some (2, 2)"
proof -
  have ok: "commit_error (ex_env 2000 []) i = None" for i
    by (simp add: ex_env_fields)
  have "chunk_rows (ex_env 2000 []) ((2000 + 999) div 1000) (PStr ''ticket1'') ex_table
          (replicate 2000 (ex_row 10)) [] 1 ex_state
        = (Inr (replicate 999 (format_observation (ex_env 2000 []) (ex_row 10) ex_table), 2),
           snd (chunk_rows (ex_env 2000 []) 2 (PStr ''ticket1'') ex_table
                  (replicate 1000 (ex_row 10) @ [ex_row 10]) [] 1 ex_state))"
    using ex_two_chunks [of "ex_env 2000 []" ex_state 2 "''ticket1''" ex_table "ex_row 10", OF ok]
    by simp
  note final = ex_datadump_after_tables [OF this, unfolded ex_first_chunk [OF ok] snd_conv]
  from final show ?thesis
    by (simp add: ex_get_observation_datadump store_chunk_ok [OF ok]
        session_commit_def session_add_def ex_env_fields ex_state_def part_sizes_def)
qed

end
